theory Spec2Isabelle
  imports Complex_Main
begin

section \<open>Data model of the drawing canvas\<close>

text \<open>
  The component \<^verbatim>\<open>DrawingCanvas\<close> of \<^verbatim>\<open>src/components/drawing-canvas.tsx\<close> keeps its
  whole editor state in React state variables. JavaScript numbers are modelled as
  \<^typ>\<open>real\<close> (no rounding error, no NaN), array indices as \<^typ>\<open>nat\<close>, strings as
  \<^typ>\<open>string\<close>, optional fields and nullable state as \<^typ>\<open>'a option\<close>.
\<close>

datatype Tool = Pen | Line | Rectangle | Circle | Text | Move | Eraser | Select

text \<open>The \<^verbatim>\<open>type\<close> tag of a \<^verbatim>\<open>Shape\<close>: "pen", "line", "rectangle" or "circle".\<close>

datatype shape_type = PenShape | LineShape | RectangleShape | CircleShape

text \<open>The eight resize handles "n", "ne", ..., "nw" that \<^verbatim>\<open>getResizeHandle\<close> returns.\<close>

datatype handle = N | NE | E | SE | S | SW | W | NW

record point =
  ptx :: real
  pty :: real

text \<open>
  Elements are JavaScript objects, and \<^verbatim>\<open>Array.prototype.includes\<close> compares them by
  identity. The component never writes to an object once it is stored in a state variable
  (every change builds a new object with a spread), so an element carries the address of
  its object in the field \<open>s_ref\<close> or \<open>t_ref\<close>: two array entries are the same object
  exactly when they are equal, address included. An object built by a handler takes an
  address that is not in use, counted from the field \<open>nextRef\<close> of the state.
\<close>

record shape =
  s_ref :: nat
  s_id :: string
  s_type :: shape_type
  startX :: real
  startY :: real
  endX :: real
  endY :: real
  s_lineWidth :: real
  points :: "point list option"
  s_rotation :: "real option"
  s_flipX :: "bool option"
  s_flipY :: "bool option"

record text_element =
  t_ref :: nat
  t_id :: string
  t_x :: real
  t_y :: real
  content :: string
  fontSize :: real
  t_rotation :: "real option"
  t_flipX :: "bool option"
  t_flipY :: "bool option"

datatype DrawingElement = ShapeEl shape | TextEl text_element

fun el_id :: "DrawingElement \<Rightarrow> string" where
  "el_id (ShapeEl sh) = s_id sh"
| "el_id (TextEl tx) = t_id tx"

fun el_ref :: "DrawingElement \<Rightarrow> nat" where
  "el_ref (ShapeEl sh) = s_ref sh"
| "el_ref (TextEl tx) = t_ref tx"

text \<open>The spread \<^verbatim>\<open>{ ...el }\<close>: a new object, at address \<open>a\<close>, with the fields of \<open>el\<close>.\<close>

fun spread :: "nat \<Rightarrow> DrawingElement \<Rightarrow> DrawingElement" where
  "spread a (ShapeEl sh) = ShapeEl (sh\<lparr>s_ref := a\<rparr>)"
| "spread a (TextEl tx) = TextEl (tx\<lparr>t_ref := a\<rparr>)"

record HistoryState =
  hs_elements :: "DrawingElement list"
  hs_selectedElements :: "DrawingElement list"

record box =
  box_startX :: real
  box_startY :: real
  box_endX :: real
  box_endY :: real

text \<open>What \<^verbatim>\<open>canvas.getBoundingClientRect()\<close> returns, as far as the component reads it.\<close>

record dom_rect =
  rect_left :: real
  rect_top :: real
  rect_width :: real
  rect_height :: real

text \<open>
  One field per \<^verbatim>\<open>useState\<close> variable (lines 62 to 92), under the source's names, and
  the two DOM handles the handlers test: \<^verbatim>\<open>ctx\<close> (present or null) and
  \<^verbatim>\<open>canvasRef.current\<close> (null, or a canvas with its bounding rectangle). The last
  field is the first address that no object has.
\<close>

record state =
  canvasRef :: "dom_rect option"
  ctx :: bool
  isDrawing :: bool
  tool :: Tool
  lineWidth :: real
  showGrid :: bool
  gridSnap :: bool
  textInput :: string
  textPosition :: point
  isAddingText :: bool
  editingTextId :: "string option"
  elements :: "DrawingElement list"
  movingElement :: "DrawingElement option"
  moveOffset :: "point option"
  selectedElements :: "DrawingElement list"
  resizeHandle :: "handle option"
  copiedElements :: "DrawingElement list"
  selectionBox :: "box option"
  isSelecting :: bool
  zoom :: real
  panOffset :: point
  isPanning :: bool
  panStart :: point
  history :: "HistoryState list"
  historyIndex :: nat
  nextRef :: nat

text \<open>
  The state of the first render: the initial values of the \<^verbatim>\<open>useState\<close> calls, on a
  mounted canvas with bounding rectangle \<open>rc\<close> and a 2d context.
\<close>

definition initial :: "dom_rect \<Rightarrow> state" where
  "initial rc =
     \<lparr>canvasRef = Some rc, ctx = True, isDrawing = False, tool = Pen, lineWidth = 2,
      showGrid = False, gridSnap = False, textInput = [], textPosition = \<lparr>ptx = 0, pty = 0\<rparr>,
      isAddingText = False, editingTextId = None, elements = [], movingElement = None,
      moveOffset = Some \<lparr>ptx = 0, pty = 0\<rparr>, selectedElements = [], resizeHandle = None,
      copiedElements = [], selectionBox = None, isSelecting = False, zoom = 1,
      panOffset = \<lparr>ptx = 0, pty = 0\<rparr>, isPanning = False, panStart = \<lparr>ptx = 0, pty = 0\<rparr>,
      history = [\<lparr>hs_elements = [], hs_selectedElements = []\<rparr>], historyIndex = 0,
      nextRef = 0\<rparr>"

definition gridSize :: real where
  "gridSize = 20"

section \<open>Handlers\<close>

text \<open>
  A handler created during a render reads the state variables of that render: they are
  constants of its closure. A call \<^verbatim>\<open>setX(v)\<close> does not change them; it queues the value
  for the next render, and \<^verbatim>\<open>setX((prev) => ...)\<close> queues a function of the value queued so
  far. Every handler is therefore a function of two states: \<open>r\<close>, the render it closes
  over, which it reads, and \<open>p\<close>, the pending state, which the setters update and which
  becomes the next render. A handler invoked from the render it was created in starts
  with \<open>p = r\<close>. The address counter \<open>nextRef\<close> belongs to the heap and not to a
  render: a handler reads and advances the one of \<open>p\<close>.
\<close>

subsection \<open>Viewport\<close>

text \<open>Lines 105 and 106: the world point under a mouse position, for a zoom and a pan.\<close>

definition screenToWorld :: "real \<Rightarrow> point \<Rightarrow> point \<Rightarrow> point" where
  "screenToWorld z pan m = \<lparr>ptx = (ptx m - ptx pan) / z, pty = (pty m - pty pan) / z\<rparr>"

text \<open>
  \<^verbatim>\<open>handleZoom(delta, clientX?, clientY?)\<close>, lines 95 to 118. Without a mouse position the
  centre of the canvas is the anchor.
\<close>

definition handleZoom :: "state \<Rightarrow> state \<Rightarrow> real \<Rightarrow> real option \<Rightarrow> real option \<Rightarrow> state" where
  "handleZoom r p delta clientX clientY =
     (case canvasRef p of
        None \<Rightarrow> p
      | Some rect \<Rightarrow>
          let mouseX = (case clientX of Some cx \<Rightarrow> cx | None \<Rightarrow> rect_width rect / 2);
              mouseY = (case clientY of Some cy \<Rightarrow> cy | None \<Rightarrow> rect_height rect / 2);
              world = screenToWorld (zoom r) (panOffset r) \<lparr>ptx = mouseX, pty = mouseY\<rparr>;
              newZoom = max (1 / 10) (min 10 (zoom r + delta));
              newPanX = mouseX - ptx world * newZoom;
              newPanY = mouseY - pty world * newZoom
          in p\<lparr>zoom := newZoom, panOffset := \<lparr>ptx = newPanX, pty = newPanY\<rparr>\<rparr>)"

subsection \<open>History\<close>

text \<open>
  \<^verbatim>\<open>saveToHistory\<close>, lines 121 to 130. The snapshot holds \<^verbatim>\<open>elements\<close> and
  \<^verbatim>\<open>selectedElements\<close> of the render; \<^verbatim>\<open>history.slice(0, historyIndex + 1)\<close> is
  \<^term>\<open>take (historyIndex r + 1) (history r)\<close>.
\<close>

definition saveToHistory :: "state \<Rightarrow> state \<Rightarrow> state" where
  "saveToHistory r p =
     (let newState = \<lparr>hs_elements = elements r, hs_selectedElements = selectedElements r\<rparr>;
          newHistory = take (historyIndex r + 1) (history r) @ [newState]
      in p\<lparr>history := newHistory, historyIndex := length newHistory - 1\<rparr>)"

subsection \<open>Grid snap\<close>

text \<open>
  Lines 157 and 158: \<^verbatim>\<open>Math.round(v / gridSize) * gridSize\<close>. \<^verbatim>\<open>Math.round\<close> rounds a
  half up, as \<^const>\<open>round\<close> does (\<^prop>\<open>round x = \<lfloor>x + 1 / 2\<rfloor>\<close>).
\<close>

definition snapCoord :: "real \<Rightarrow> real \<Rightarrow> real" where
  "snapCoord g v = of_int (round (v / g)) * g"

text \<open>\<^verbatim>\<open>snapToGrid(x, y)\<close>, lines 153 to 162.\<close>

definition snapToGrid :: "state \<Rightarrow> real \<Rightarrow> real \<Rightarrow> point" where
  "snapToGrid r x y =
     (if \<not> gridSnap r then \<lparr>ptx = x, pty = y\<rparr>
      else \<lparr>ptx = snapCoord gridSize x, pty = snapCoord gridSize y\<rparr>)"

text \<open>
  \<^verbatim>\<open>snapElementToGrid(element)\<close>, lines 165 to 192. With grid snap off the element
  itself is returned; with grid snap on the result is a new object, at address \<open>a\<close>.
\<close>

definition snapElementToGrid :: "state \<Rightarrow> nat \<Rightarrow> DrawingElement \<Rightarrow> DrawingElement" where
  "snapElementToGrid r a element =
     (if \<not> gridSnap r then element
      else case element of
        TextEl tx \<Rightarrow>
          let snapped = snapToGrid r (t_x tx) (t_y tx)
          in TextEl (tx\<lparr>t_ref := a, t_x := ptx snapped, t_y := pty snapped\<rparr>)
      | ShapeEl sh \<Rightarrow>
          let snappedStart = snapToGrid r (startX sh) (startY sh);
              snappedEnd = snapToGrid r (endX sh) (endY sh);
              updatedElement = sh\<lparr>s_ref := a,
                                  startX := ptx snappedStart, startY := pty snappedStart,
                                  endX := ptx snappedEnd, endY := pty snappedEnd\<rparr>
          in ShapeEl (case points sh of
                        Some ps \<Rightarrow>
                          updatedElement\<lparr>points :=
                            Some (map (\<lambda>pt. snapToGrid r (ptx pt) (pty pt)) ps)\<rparr>
                      | None \<Rightarrow> updatedElement))"

text \<open>
  \<^verbatim>\<open>transformCoordinates(clientX, clientY)\<close>, lines 195 to 204: the world point of a
  client position, passed through \<^const>\<open>snapToGrid\<close>. The ref \<^verbatim>\<open>canvasRef.current\<close> is
  read when the call happens.
\<close>

definition transformCoordinates :: "state \<Rightarrow> state \<Rightarrow> real \<Rightarrow> real \<Rightarrow> point" where
  "transformCoordinates r p cx cy =
     (case canvasRef p of
        None \<Rightarrow> \<lparr>ptx = 0, pty = 0\<rparr>
      | Some rect \<Rightarrow>
          let x = (cx - rect_left rect - ptx (panOffset r)) / zoom r;
              y = (cy - rect_top rect - pty (panOffset r)) / zoom r
          in snapToGrid r x y)"

subsection \<open>History: undo and redo\<close>

text \<open>
  \<^verbatim>\<open>undo\<close>, lines 133 to 140. \<^verbatim>\<open>history[historyIndex - 1]\<close> beyond the end of the array
  is \<^verbatim>\<open>undefined\<close>, and reading \<^verbatim>\<open>prevState.elements\<close> then throws a TypeError before any
  setter is called.
\<close>

datatype error = TypeError

definition undo :: "state \<Rightarrow> state \<Rightarrow> error + state" where
  "undo r p =
     (if historyIndex r > 0 then
        (if historyIndex r - 1 < length (history r) then
           let prevState = history r ! (historyIndex r - 1)
           in Inr (p\<lparr>elements := hs_elements prevState,
                     selectedElements := hs_selectedElements prevState,
                     historyIndex := historyIndex r - 1\<rparr>)
         else Inl TypeError)
      else Inr p)"

text \<open>
  \<^verbatim>\<open>redo\<close>, lines 143 to 150. The guard keeps \<^verbatim>\<open>historyIndex + 1\<close> inside the array.
\<close>

definition redo :: "state \<Rightarrow> state \<Rightarrow> state" where
  "redo r p =
     (if historyIndex r < length (history r) - 1 then
        let nextState = history r ! (historyIndex r + 1)
        in p\<lparr>elements := hs_elements nextState,
               selectedElements := hs_selectedElements nextState,
               historyIndex := historyIndex r + 1\<rparr>
      else p)"

subsection \<open>Hit test and erasing\<close>

text \<open>\<^verbatim>\<open>isPointInElement(x, y, element)\<close>, lines 1022 to 1045.\<close>

definition isPointInElement :: "state \<Rightarrow> real \<Rightarrow> real \<Rightarrow> DrawingElement \<Rightarrow> bool" where
  "isPointInElement r x y element =
     (case element of
        TextEl tx \<Rightarrow>
          x \<ge> t_x tx \<and> x \<le> t_x tx + 50 \<and> y \<ge> t_y tx - fontSize tx \<and> y \<le> t_y tx
      | ShapeEl sh \<Rightarrow>
          if s_type sh = CircleShape then
            let centerX = startX sh;
                centerY = startY sh;
                radius = sqrt ((endX sh - startX sh)\<^sup>2 + (endY sh - startY sh)\<^sup>2);
                distance = sqrt ((x - centerX)\<^sup>2 + (y - centerY)\<^sup>2)
            in distance \<le> radius + 5 / zoom r
          else if s_type sh = PenShape \<and> points sh \<noteq> None then
            list_ex (\<lambda>pt. sqrt ((ptx pt - x)\<^sup>2 + (pty pt - y)\<^sup>2) < 10 / zoom r)
              (the (points sh))
          else
            let minX = min (startX sh) (endX sh);
                maxX = max (startX sh) (endX sh);
                minY = min (startY sh) (endY sh);
                maxY = max (startY sh) (endY sh);
                padding = 5 / zoom r
            in x \<ge> minX - padding \<and> x \<le> maxX + padding
               \<and> y \<ge> minY - padding \<and> y \<le> maxY + padding)"

text \<open>
  \<^verbatim>\<open>eraseElements(x, y)\<close>, lines 1047 to 1058. The two filters are functional updates of
  the pending state; \<^const>\<open>saveToHistory\<close> is the one of the render.
\<close>

definition eraseElements :: "state \<Rightarrow> state \<Rightarrow> real \<Rightarrow> real \<Rightarrow> state" where
  "eraseElements r p x y =
     (let elementsAtPoint = filter (isPointInElement r x y) (rev (elements r))
      in case elementsAtPoint of
           [] \<Rightarrow> p
         | elementToErase # _ \<Rightarrow>
             saveToHistory r
               (p\<lparr>elements := filter (\<lambda>el. el_id el \<noteq> el_id elementToErase) (elements p),
                  selectedElements :=
                    filter (\<lambda>el. el_id el \<noteq> el_id elementToErase) (selectedElements p)\<rparr>))"

text \<open>\<^verbatim>\<open>clearCanvas\<close>, lines 1060 to 1064.\<close>

definition clearCanvas :: "state \<Rightarrow> state \<Rightarrow> state" where
  "clearCanvas r p = saveToHistory r (p\<lparr>elements := [], selectedElements := []\<rparr>)"

text \<open>\<^verbatim>\<open>handleToolChange(newTool)\<close>, lines 1075 to 1084.\<close>

definition handleToolChange :: "state \<Rightarrow> state \<Rightarrow> Tool \<Rightarrow> state" where
  "handleToolChange r p newTool =
     (let p1 = (if tool r = Text \<and> isAddingText r
                then p\<lparr>isAddingText := False, textInput := []\<rparr> else p);
          p2 = p1\<lparr>tool := newTool\<rparr>
      in if newTool \<noteq> Select \<and> newTool \<noteq> Move then p2\<lparr>selectedElements := []\<rparr> else p2)"

subsection \<open>Clipboard and transforms of the selection\<close>

text \<open>\<^verbatim>\<open>copyElements\<close>, lines 1104 to 1108.\<close>

definition copyElements :: "state \<Rightarrow> state \<Rightarrow> state" where
  "copyElements r p =
     (if length (selectedElements r) > 0 then p\<lparr>copiedElements := selectedElements r\<rparr> else p)"

text \<open>
  The translation that paste and duplicate apply to the \<^verbatim>\<open>points\<close> of a stroke.
\<close>

definition shiftPoint :: "real \<Rightarrow> real \<Rightarrow> point \<Rightarrow> point" where
  "shiftPoint dx dy pt = \<lparr>ptx = ptx pt + dx, pty = pty pt + dy\<rparr>"

text \<open>
  \<^verbatim>\<open>pasteElements(x?, y?)\<close>, lines 1110 to 1151. The identifier of the copy of the element
  at \<open>index\<close> is \<^verbatim>\<open>Date.now().toString() + Math.random() + index\<close>: a reading of the clock
  and of the random generator, which the model takes as the parameter \<open>newId index\<close>.
  The copy of the element at \<open>index\<close> is a new object, at address \<open>a + index\<close>.
\<close>

definition pasteOne :: "state \<Rightarrow> (nat \<Rightarrow> string) \<Rightarrow> nat \<Rightarrow> real \<Rightarrow> real \<Rightarrow> nat \<times> DrawingElement \<Rightarrow> DrawingElement" where
  "pasteOne r newId a pasteX pasteY ie =
     (let index = fst ie;
          element = snd ie;
          newElement =
            (case element of
               TextEl tx \<Rightarrow>
                 TextEl (tx\<lparr>t_ref := a + index, t_id := newId index,
                            t_x := pasteX + real index * 10, t_y := pasteY + real index * 10\<rparr>)
             | ShapeEl sh \<Rightarrow>
                 let width = endX sh - startX sh;
                     height = endY sh - startY sh;
                     moved = sh\<lparr>s_ref := a + index, s_id := newId index,
                                startX := pasteX + real index * 10,
                                startY := pasteY + real index * 10,
                                endX := pasteX + width + real index * 10,
                                endY := pasteY + height + real index * 10\<rparr>
                 in ShapeEl (case points sh of
                               Some ps \<Rightarrow>
                                 let offsetX = pasteX + real index * 10 - startX sh;
                                     offsetY = pasteY + real index * 10 - startY sh
                                 in moved\<lparr>points := Some (map (shiftPoint offsetX offsetY) ps)\<rparr>
                             | None \<Rightarrow> moved))
      in if gridSnap r then snapElementToGrid r (a + index) newElement else newElement)"

definition pasteElements :: "state \<Rightarrow> state \<Rightarrow> (nat \<Rightarrow> string) \<Rightarrow> real option \<Rightarrow> real option \<Rightarrow> state" where
  "pasteElements r p newId x y =
     (if length (copiedElements r) = 0 then p
      else
        let pasteX = (case x of Some v \<Rightarrow> v | None \<Rightarrow> 50);
            pasteY = (case y of Some v \<Rightarrow> v | None \<Rightarrow> 50);
            newElements = map (pasteOne r newId (nextRef p) pasteX pasteY)
                            (enumerate 0 (copiedElements r))
        in saveToHistory r
             (p\<lparr>elements := elements p @ newElements, selectedElements := newElements,
                nextRef := nextRef p + length (copiedElements r)\<rparr>))"

text \<open>
  \<^verbatim>\<open>duplicateElements\<close>, lines 1153 to 1182; \<open>newId i\<close> stands for
  \<^verbatim>\<open>Date.now().toString() + Math.random()\<close> in the callback for the \<open>i\<close>-th element,
  whose copy is a new object at address \<open>a + i\<close>.
\<close>

definition duplicateOne :: "(nat \<Rightarrow> string) \<Rightarrow> nat \<Rightarrow> nat \<times> DrawingElement \<Rightarrow> DrawingElement" where
  "duplicateOne newId a ie =
     (case snd ie of
        TextEl tx \<Rightarrow>
          TextEl (tx\<lparr>t_ref := a + fst ie, t_id := newId (fst ie),
                     t_x := t_x tx + 20, t_y := t_y tx + 20\<rparr>)
      | ShapeEl sh \<Rightarrow>
          let moved = sh\<lparr>s_ref := a + fst ie, s_id := newId (fst ie),
                         startX := startX sh + 20, startY := startY sh + 20,
                         endX := endX sh + 20, endY := endY sh + 20\<rparr>
          in ShapeEl (case points sh of
                        Some ps \<Rightarrow> moved\<lparr>points := Some (map (shiftPoint 20 20) ps)\<rparr>
                      | None \<Rightarrow> moved))"

definition duplicateElements :: "state \<Rightarrow> state \<Rightarrow> (nat \<Rightarrow> string) \<Rightarrow> state" where
  "duplicateElements r p newId =
     (if length (selectedElements r) = 0 then p
      else
        let duplicated = map (duplicateOne newId (nextRef p)) (enumerate 0 (selectedElements r))
        in saveToHistory r
             (p\<lparr>elements := elements p @ duplicated, selectedElements := duplicated,
                nextRef := nextRef p + length (selectedElements r)\<rparr>))"

text \<open>\<^verbatim>\<open>selectedElements.some((sel) => sel.id === el.id)\<close>.\<close>

definition isSelected :: "state \<Rightarrow> DrawingElement \<Rightarrow> bool" where
  "isSelected r el = list_ex (\<lambda>sel. el_id sel = el_id el) (selectedElements r)"

text \<open>\<^verbatim>\<open>deleteSelectedElements\<close>, lines 1184 to 1190.\<close>

definition deleteSelectedElements :: "state \<Rightarrow> state \<Rightarrow> state" where
  "deleteSelectedElements r p =
     (if length (selectedElements r) = 0 then p
      else saveToHistory r
             (p\<lparr>elements := filter (\<lambda>el. \<not> isSelected r el) (elements p),
                selectedElements := []\<rparr>))"

text \<open>\<^verbatim>\<open>selectAll\<close>, lines 1192 to 1194.\<close>

definition selectAll :: "state \<Rightarrow> state \<Rightarrow> state" where
  "selectAll r p = p\<lparr>selectedElements := elements r\<rparr>"

text \<open>
  The fields that \<^verbatim>\<open>{ ...el, rotation: (el.rotation || 0) + 90 }\<close>,
  \<^verbatim>\<open>{ ...el, flipX: !el.flipX }\<close> and \<^verbatim>\<open>{ ...el, flipY: !el.flipY }\<close> set; an absent field
  reads as \<^verbatim>\<open>undefined\<close>.
\<close>

definition rotated :: "DrawingElement \<Rightarrow> DrawingElement" where
  "rotated el =
     (case el of
        ShapeEl sh \<Rightarrow>
          ShapeEl (sh\<lparr>s_rotation := Some ((case s_rotation sh of Some v \<Rightarrow> v | None \<Rightarrow> 0) + 90)\<rparr>)
      | TextEl tx \<Rightarrow>
          TextEl (tx\<lparr>t_rotation := Some ((case t_rotation tx of Some v \<Rightarrow> v | None \<Rightarrow> 0) + 90)\<rparr>))"

definition flippedX :: "DrawingElement \<Rightarrow> DrawingElement" where
  "flippedX el =
     (case el of
        ShapeEl sh \<Rightarrow> ShapeEl (sh\<lparr>s_flipX := Some (case s_flipX sh of Some b \<Rightarrow> \<not> b | None \<Rightarrow> True)\<rparr>)
      | TextEl tx \<Rightarrow> TextEl (tx\<lparr>t_flipX := Some (case t_flipX tx of Some b \<Rightarrow> \<not> b | None \<Rightarrow> True)\<rparr>))"

definition flippedY :: "DrawingElement \<Rightarrow> DrawingElement" where
  "flippedY el =
     (case el of
        ShapeEl sh \<Rightarrow> ShapeEl (sh\<lparr>s_flipY := Some (case s_flipY sh of Some b \<Rightarrow> \<not> b | None \<Rightarrow> True)\<rparr>)
      | TextEl tx \<Rightarrow> TextEl (tx\<lparr>t_flipY := Some (case t_flipY tx of Some b \<Rightarrow> \<not> b | None \<Rightarrow> True)\<rparr>))"

text \<open>
  The common body of \<^verbatim>\<open>rotateSelectedElements\<close>, \<^verbatim>\<open>flipSelectedElementsHorizontal\<close> and
  \<^verbatim>\<open>flipSelectedElementsVertical\<close> (lines 1196 to 1242), which differ in the fields they
  set. The new version of a selected element in \<^verbatim>\<open>elements\<close> and the new version of the
  entry of \<^verbatim>\<open>selectedElements\<close> are built by two spreads: they are two objects.
\<close>

definition transformSelected :: "(DrawingElement \<Rightarrow> DrawingElement) \<Rightarrow> state \<Rightarrow> state \<Rightarrow> state" where
  "transformSelected f r p =
     (if length (selectedElements r) = 0 then p
      else saveToHistory r
             (p\<lparr>elements :=
                  map (\<lambda>ae. if isSelected r (snd ae) then spread (fst ae) (f (snd ae)) else snd ae)
                    (enumerate (nextRef p) (elements p)),
                selectedElements :=
                  map (\<lambda>ae. spread (fst ae) (f (snd ae)))
                    (enumerate (nextRef p + length (elements p)) (selectedElements p)),
                nextRef := nextRef p + length (elements p) + length (selectedElements p)\<rparr>))"

definition rotateSelectedElements :: "state \<Rightarrow> state \<Rightarrow> state" where
  "rotateSelectedElements = transformSelected rotated"

definition flipSelectedElementsHorizontal :: "state \<Rightarrow> state \<Rightarrow> state" where
  "flipSelectedElementsHorizontal = transformSelected flippedX"

definition flipSelectedElementsVertical :: "state \<Rightarrow> state \<Rightarrow> state" where
  "flipSelectedElementsVertical = transformSelected flippedY"

subsection \<open>Pointer, wheel and keyboard events\<close>

text \<open>What the handlers read of a \<^verbatim>\<open>React.MouseEvent\<close>, a \<^verbatim>\<open>React.WheelEvent\<close> and a
  \<^verbatim>\<open>KeyboardEvent\<close>.\<close>

record mouse_event =
  e_clientX :: real
  e_clientY :: real
  e_button :: nat
  e_ctrlKey :: bool
  e_metaKey :: bool

record wheel_event =
  w_ctrlKey :: bool
  w_deltaX :: real
  w_deltaY :: real
  w_clientX :: real
  w_clientY :: real

record key_event =
  k_key :: string
  k_ctrlKey :: bool
  k_metaKey :: bool
  k_shiftKey :: bool

text \<open>
  The loop over a list of handle positions that returns the first one within the
  tolerance on both axes (lines 374 to 379 and 401 to 405).
\<close>

definition firstHandle :: "real \<Rightarrow> real \<Rightarrow> real \<Rightarrow> (real \<times> real \<times> handle) list \<Rightarrow> handle option" where
  "firstHandle x y tolerance handles =
     map_option (\<lambda>h. snd (snd h))
       (find (\<lambda>h. \<bar>x - fst h\<bar> < tolerance \<and> \<bar>y - fst (snd h)\<bar> < tolerance) handles)"

text \<open>\<^verbatim>\<open>getResizeHandle(x, y, element)\<close>, lines 353 to 408.\<close>

definition getResizeHandle :: "state \<Rightarrow> real \<Rightarrow> real \<Rightarrow> DrawingElement \<Rightarrow> handle option" where
  "getResizeHandle r x y element =
     (case element of
        TextEl tx \<Rightarrow> None
      | ShapeEl sh \<Rightarrow>
          if s_type sh = PenShape then None
          else
            let tolerance = max (8 / zoom r) 4
            in if s_type sh = CircleShape then
                 let centerX = startX sh;
                     centerY = startY sh;
                     radius = sqrt ((endX sh - startX sh)\<^sup>2 + (endY sh - startY sh)\<^sup>2)
                 in firstHandle x y tolerance
                      [(centerX, centerY - radius, N),
                       (centerX + radius * cos (pi / 4), centerY - radius * sin (pi / 4), NE),
                       (centerX + radius, centerY, E),
                       (centerX + radius * cos (pi / 4), centerY + radius * sin (pi / 4), SE),
                       (centerX, centerY + radius, S),
                       (centerX - radius * cos (pi / 4), centerY + radius * sin (pi / 4), SW),
                       (centerX - radius, centerY, W),
                       (centerX - radius * cos (pi / 4), centerY - radius * sin (pi / 4), NW)]
               else
                 firstHandle x y tolerance
                   [(startX sh, startY sh, NW),
                    (endX sh, startY sh, NE),
                    (startX sh, endY sh, SW),
                    (endX sh, endY sh, SE),
                    (startX sh, (startY sh + endY sh) / 2, W),
                    (endX sh, (startY sh + endY sh) / 2, E),
                    ((startX sh + endX sh) / 2, startY sh, N),
                    ((startX sh + endX sh) / 2, endY sh, S)])"

text \<open>
  The loop of lines 515 to 523 (and 554 to 562): the handle of the first selected element
  that has one under the point.
\<close>

definition selectedHandle :: "state \<Rightarrow> real \<Rightarrow> real \<Rightarrow> handle option" where
  "selectedHandle r x y =
     (case filter (\<lambda>h. h \<noteq> None) (map (getResizeHandle r x y) (selectedElements r)) of
        [] \<Rightarrow> None
      | h # _ \<Rightarrow> h)"

text \<open>
  \<^verbatim>\<open>{ x: x - (clickedElement as Shape).startX, y: y - (clickedElement as Shape).startY }\<close>:
  a text element has no \<^verbatim>\<open>startX\<close>, the difference is NaN, and \<^const>\<open>None\<close> stands for
  that offset.
\<close>

definition grabOffset :: "real \<Rightarrow> real \<Rightarrow> DrawingElement \<Rightarrow> point option" where
  "grabOffset x y clickedElement =
     (case clickedElement of
        ShapeEl sh \<Rightarrow> Some \<lparr>ptx = x - startX sh, pty = y - startY sh\<rparr>
      | TextEl tx \<Rightarrow> None)"

text \<open>
  \<^verbatim>\<open>startDrawing(e)\<close>, lines 501 to 605, the canvas's \<^verbatim>\<open>onMouseDown\<close>. \<open>now\<close> is
  \<^verbatim>\<open>Date.now().toString()\<close>. \<^verbatim>\<open>selectedElements.includes(clickedElement)\<close> compares object
  identities: the clicked element, addressed, is an entry of the list.
\<close>

definition startDrawing :: "state \<Rightarrow> state \<Rightarrow> string \<Rightarrow> mouse_event \<Rightarrow> state" where
  "startDrawing r p now e =
     (if \<not> ctx r \<or> canvasRef p = None then p
      else
        let pt = transformCoordinates r p (e_clientX e) (e_clientY e);
            x = ptx pt;
            y = pty pt
        in if e_button e = 1 then
             p\<lparr>isPanning := True,
               panStart := \<lparr>ptx = e_clientX e - ptx (panOffset r),
                            pty = e_clientY e - pty (panOffset r)\<rparr>\<rparr>
           else if tool r = Select then
             (case selectedHandle r x y of
                Some h \<Rightarrow> p\<lparr>resizeHandle := Some h\<rparr>
              | None \<Rightarrow>
                  (case find (isPointInElement r x y) (elements r) of
                     Some clickedElement \<Rightarrow>
                       (let p1 =
                          (if e_ctrlKey e \<or> e_metaKey e then
                             (if clickedElement \<in> set (selectedElements r) then
                                p\<lparr>selectedElements :=
                                    filter (\<lambda>el. el_id el \<noteq> el_id clickedElement)
                                      (selectedElements r)\<rparr>
                              else p\<lparr>selectedElements := selectedElements r @ [clickedElement]\<rparr>)
                           else if clickedElement \<notin> set (selectedElements r) then
                             p\<lparr>selectedElements := [clickedElement]\<rparr>
                           else p)
                        in p1\<lparr>movingElement := Some clickedElement,
                              moveOffset := grabOffset x y clickedElement\<rparr>)
                   | None \<Rightarrow>
                       (let p1 = (if \<not> e_ctrlKey e \<and> \<not> e_metaKey e
                                  then p\<lparr>selectedElements := []\<rparr> else p)
                        in p1\<lparr>selectionBox :=
                                Some \<lparr>box_startX = x, box_startY = y, box_endX = x, box_endY = y\<rparr>,
                              isSelecting := True\<rparr>)))
           else if tool r = Move then
             (case selectedHandle r x y of
                Some h \<Rightarrow> p\<lparr>resizeHandle := Some h\<rparr>
              | None \<Rightarrow>
                  (case find (isPointInElement r x y) (elements r) of
                     Some clickedElement \<Rightarrow>
                       (let p1 = (if clickedElement \<notin> set (selectedElements r)
                                  then p\<lparr>selectedElements := [clickedElement]\<rparr> else p)
                        in p1\<lparr>movingElement := Some clickedElement,
                              moveOffset := grabOffset x y clickedElement\<rparr>)
                   | None \<Rightarrow> p\<lparr>selectedElements := []\<rparr>))
           else if tool r = Eraser then eraseElements r p x y
           else
             (let p1 = p\<lparr>selectedElements := [], isDrawing := True\<rparr>;
                  newShape = (\<lambda>ty.
                    ShapeEl \<lparr>s_ref = nextRef p, s_id = now, s_type = ty,
                             startX = x, startY = y, endX = x, endY = y,
                             s_lineWidth = lineWidth r,
                             points = (if ty = PenShape then Some [\<lparr>ptx = x, pty = y\<rparr>] else None),
                             s_rotation = Some 0, s_flipX = Some False, s_flipY = Some False\<rparr>);
                  added = (\<lambda>ty. p1\<lparr>elements := elements p1 @ [newShape ty],
                                       nextRef := nextRef p + 1\<rparr>)
              in case tool r of
                   Text \<Rightarrow> p1\<lparr>textPosition := \<lparr>ptx = x, pty = y\<rparr>, isAddingText := True\<rparr>
                 | Pen \<Rightarrow> added PenShape
                 | Line \<Rightarrow> added LineShape
                 | Rectangle \<Rightarrow> added RectangleShape
                 | Circle \<Rightarrow> added CircleShape
                 | _ \<Rightarrow> p1))"

text \<open>
  The resize drag of \<^verbatim>\<open>draw\<close>, lines 631 to 717: the new version, at address \<open>a\<close>, of a
  selected circle, rectangle or line for the handle being dragged and the pointer at
  \<open>(x, y)\<close>.
\<close>

definition resizeShape :: "state \<Rightarrow> nat \<Rightarrow> handle \<Rightarrow> real \<Rightarrow> real \<Rightarrow> shape \<Rightarrow> shape" where
  "resizeShape r a h x y el =
     (if s_type el = CircleShape then
        let centerX = startX el;
            centerY = startY el;
            radius = sqrt ((x - centerX)\<^sup>2 + (y - centerY)\<^sup>2)
        in case h of
             N \<Rightarrow> el\<lparr>s_ref := a, endX := startX el, endY := startY el - \<bar>y - centerY\<bar>\<rparr>
           | NE \<Rightarrow> el\<lparr>s_ref := a, endX := centerX + radius, endY := centerY\<rparr>
           | E \<Rightarrow> el\<lparr>s_ref := a, endX := startX el + \<bar>x - centerX\<bar>, endY := startY el\<rparr>
           | SE \<Rightarrow> el\<lparr>s_ref := a, endX := centerX + radius, endY := centerY\<rparr>
           | S \<Rightarrow> el\<lparr>s_ref := a, endX := startX el, endY := startY el + \<bar>y - centerY\<bar>\<rparr>
           | SW \<Rightarrow> el\<lparr>s_ref := a, endX := centerX + radius, endY := centerY\<rparr>
           | W \<Rightarrow> el\<lparr>s_ref := a, endX := startX el - \<bar>x - centerX\<bar>, endY := startY el\<rparr>
           | NW \<Rightarrow> el\<lparr>s_ref := a, endX := centerX + radius, endY := centerY\<rparr>
      else
        let newStartX = (case h of NW \<Rightarrow> x | SW \<Rightarrow> x | W \<Rightarrow> x | _ \<Rightarrow> startX el);
            newStartY = (case h of NW \<Rightarrow> y | NE \<Rightarrow> y | N \<Rightarrow> y | _ \<Rightarrow> startY el);
            newEndX = (case h of NE \<Rightarrow> x | SE \<Rightarrow> x | E \<Rightarrow> x | _ \<Rightarrow> endX el);
            newEndY = (case h of SW \<Rightarrow> y | SE \<Rightarrow> y | S \<Rightarrow> y | _ \<Rightarrow> endY el);
            snappedStart = snapToGrid r newStartX newStartY;
            snappedEnd = snapToGrid r newEndX newEndY
        in if gridSnap r then
             el\<lparr>s_ref := a, startX := ptx snappedStart, startY := pty snappedStart,
                endX := ptx snappedEnd, endY := pty snappedEnd\<rparr>
           else el\<lparr>s_ref := a, startX := newStartX, startY := newStartY,
                   endX := newEndX, endY := newEndY\<rparr>)"

text \<open>
  The move drag of \<^verbatim>\<open>draw\<close>, lines 744 to 768 and 779 to 798: a copy of the element,
  translated by the delta and then snapped when grid snap is on. The object that results
  is at address \<open>a\<close>.
\<close>

definition movedBy :: "state \<Rightarrow> nat \<Rightarrow> real \<Rightarrow> real \<Rightarrow> DrawingElement \<Rightarrow> DrawingElement" where
  "movedBy r a deltaX deltaY el =
     (let updatedElement =
        (case el of
           TextEl tx \<Rightarrow> TextEl (tx\<lparr>t_ref := a, t_x := t_x tx + deltaX, t_y := t_y tx + deltaY\<rparr>)
         | ShapeEl sh \<Rightarrow>
             let moved = sh\<lparr>s_ref := a,
                            startX := startX sh + deltaX, startY := startY sh + deltaY,
                            endX := endX sh + deltaX, endY := endY sh + deltaY\<rparr>
             in ShapeEl (case points sh of
                           Some ps \<Rightarrow> moved\<lparr>points := Some (map (shiftPoint deltaX deltaY) ps)\<rparr>
                         | None \<Rightarrow> moved))
      in if gridSnap r then snapElementToGrid r a updatedElement else updatedElement)"

text \<open>
  \<^verbatim>\<open>draw(e)\<close>, lines 607 to 834, the canvas's \<^verbatim>\<open>onMouseMove\<close>. In the move drag the delta
  is computed from \<^verbatim>\<open>moveOffset\<close> and \<^verbatim>\<open>movingElement.startX\<close>; when the grabbed element is
  a text element both are NaN and so are all coordinates written, which \<^typ>\<open>real\<close>
  does not represent: the result is \<^const>\<open>None\<close> there, and \<^const>\<open>Some\<close> of the pending
  state everywhere else. The callbacks of \<^verbatim>\<open>map\<close> build one object for an entry: the one
  for the entry at index \<open>i\<close> of \<^verbatim>\<open>elements\<close> is at address \<open>nextRef p + i\<close>, the ones
  for \<^verbatim>\<open>selectedElements\<close> and for \<^verbatim>\<open>movingElement\<close> follow.
\<close>

definition draw :: "state \<Rightarrow> state \<Rightarrow> mouse_event \<Rightarrow> state option" where
  "draw r p e =
     (if \<not> ctx r \<or> canvasRef p = None then Some p
      else
        let pt = transformCoordinates r p (e_clientX e) (e_clientY e);
            x = ptx pt;
            y = pty pt
        in if isPanning r then
             Some (p\<lparr>panOffset := \<lparr>ptx = e_clientX e - ptx (panStart r),
                                   pty = e_clientY e - pty (panStart r)\<rparr>\<rparr>)
           else if tool r = Select \<and> isSelecting r \<and> selectionBox r \<noteq> None then
             Some (p\<lparr>selectionBox := Some ((the (selectionBox r))\<lparr>box_endX := x, box_endY := y\<rparr>)\<rparr>)
           else if (tool r = Move \<or> tool r = Select) \<and> resizeHandle r \<noteq> None
                   \<and> length (selectedElements r) > 0 then
             Some (p\<lparr>elements :=
                       map (\<lambda>ae. case snd ae of
                                    ShapeEl sh \<Rightarrow>
                                      if isSelected r (snd ae) \<and> s_type sh \<noteq> PenShape
                                      then ShapeEl (resizeShape r (fst ae) (the (resizeHandle r)) x y sh)
                                      else snd ae
                                  | TextEl tx \<Rightarrow> snd ae)
                         (enumerate (nextRef p) (elements p)),
                     selectedElements :=
                       map (\<lambda>sel. case find (\<lambda>el. el_id el = el_id sel) (elements r) of
                                     Some updated \<Rightarrow> updated
                                   | None \<Rightarrow> sel)
                         (selectedElements p),
                     nextRef := nextRef p + length (elements p)\<rparr>)
           else if (tool r = Move \<or> tool r = Select) \<and> movingElement r \<noteq> None
                   \<and> length (selectedElements r) > 0 then
             (case (movingElement r, moveOffset r) of
                (Some (ShapeEl moving), Some offset) \<Rightarrow>
                  let newX = x - ptx offset;
                      newY = y - pty offset;
                      deltaX = newX - startX moving;
                      deltaY = newY - startY moving;
                      a1 = nextRef p + length (elements p);
                      a2 = a1 + length (selectedElements p);
                      newMovingElement =
                        ShapeEl (moving\<lparr>s_ref := a2,
                                        startX := startX moving + deltaX,
                                        startY := startY moving + deltaY,
                                        endX := endX moving + deltaX,
                                        endY := endY moving + deltaY\<rparr>)
                  in Some (p\<lparr>elements :=
                               map (\<lambda>ae. if isSelected r (snd ae)
                                          then movedBy r (fst ae) deltaX deltaY (snd ae)
                                          else snd ae)
                                 (enumerate (nextRef p) (elements p)),
                             selectedElements :=
                               map (\<lambda>ae. case find (\<lambda>el. el_id el = el_id (snd ae)) (elements r) of
                                            Some updated \<Rightarrow> movedBy r (fst ae) deltaX deltaY updated
                                          | None \<Rightarrow> snd ae)
                                 (enumerate a1 (selectedElements p)),
                             movingElement :=
                               Some (if gridSnap r then snapElementToGrid r a2 newMovingElement
                                     else newMovingElement),
                             nextRef := a2 + 1\<rparr>)
              | _ \<Rightarrow> None)
           else if \<not> isDrawing r then Some p
           else
             Some (let prev = elements p
                   in if prev = [] then p
                      else case last prev of
                             TextEl tx \<Rightarrow> p
                           | ShapeEl lastElement \<Rightarrow>
                               if s_type lastElement = PenShape \<and> points lastElement \<noteq> None
                               then p\<lparr>elements := butlast prev @
                                        [ShapeEl (lastElement\<lparr>s_ref := nextRef p, points :=
                                           Some (the (points lastElement) @ [\<lparr>ptx = x, pty = y\<rparr>])\<rparr>)],
                                      nextRef := nextRef p + 1\<rparr>
                               else p\<lparr>elements := butlast prev @
                                        [ShapeEl (lastElement\<lparr>s_ref := nextRef p,
                                                              endX := x, endY := y\<rparr>)],
                                      nextRef := nextRef p + 1\<rparr>))"

text \<open>
  The containment test of the box selection, lines 849 to 860: a text element by its
  anchor point, a shape by the rectangle spanned by its start and end points.
\<close>

definition inSelectionBox :: "box \<Rightarrow> DrawingElement \<Rightarrow> bool" where
  "inSelectionBox sb el =
     (let minX = min (box_startX sb) (box_endX sb);
          maxX = max (box_startX sb) (box_endX sb);
          minY = min (box_startY sb) (box_endY sb);
          maxY = max (box_startY sb) (box_endY sb)
      in case el of
           TextEl tx \<Rightarrow> t_x tx \<ge> minX \<and> t_x tx \<le> maxX \<and> t_y tx \<ge> minY \<and> t_y tx \<le> maxY
         | ShapeEl sh \<Rightarrow>
             let elMinX = min (startX sh) (endX sh);
                 elMaxX = max (startX sh) (endX sh);
                 elMinY = min (startY sh) (endY sh);
                 elMaxY = max (startY sh) (endY sh)
             in elMinX \<ge> minX \<and> elMaxX \<le> maxX \<and> elMinY \<ge> minY \<and> elMaxY \<le> maxY)"

text \<open>
  \<^verbatim>\<open>finishDrawing(e)\<close>, lines 836 to 885, the canvas's \<^verbatim>\<open>onMouseUp\<close> and
  \<^verbatim>\<open>onMouseLeave\<close>. In \<^verbatim>\<open>!prev.includes(el)\<close> (line 863) the element, addressed, is not
  an entry of the selection.
\<close>

definition finishDrawing :: "state \<Rightarrow> state \<Rightarrow> mouse_event \<Rightarrow> state" where
  "finishDrawing r p e =
     (if isPanning r then p\<lparr>isPanning := False\<rparr>
      else
        let p1 =
              (if tool r = Select \<and> isSelecting r \<and> selectionBox r \<noteq> None then
                 let elementsInBox = filter (inSelectionBox (the (selectionBox r))) (elements r);
                     p0 = (if e_ctrlKey e \<or> e_metaKey e then
                             p\<lparr>selectedElements :=
                                 selectedElements p @
                                 filter (\<lambda>el. el \<notin> set (selectedElements p)) elementsInBox\<rparr>
                           else p\<lparr>selectedElements := elementsInBox\<rparr>)
                 in p0\<lparr>selectionBox := None, isSelecting := False\<rparr>
               else p);
            p2 =
              (if isDrawing r then
                 saveToHistory r
                   (if gridSnap r \<and> length (elements r) > 0 then
                      let lastElement = last (elements r);
                          snappedElement = snapElementToGrid r (nextRef p1) lastElement
                      in p1\<lparr>elements := butlast (elements p1) @ [snappedElement],
                            nextRef := nextRef p1 + 1\<rparr>
                    else p1)
               else p1)
        in p2\<lparr>isDrawing := False, movingElement := None, resizeHandle := None\<rparr>)"

text \<open>
  \<^verbatim>\<open>addTextToCanvas\<close>, lines 887 to 913, called when the text input is confirmed or loses
  focus. An empty string is falsy, for \<^verbatim>\<open>textInput\<close> and for \<^verbatim>\<open>editingTextId\<close> alike. The
  spread \<^verbatim>\<open>{ ...el, content: textInput }\<close> builds a new object; for a shape, one with a
  property that no code reads.
\<close>

definition addTextToCanvas :: "state \<Rightarrow> state \<Rightarrow> string \<Rightarrow> state" where
  "addTextToCanvas r p now =
     (if textInput r = [] then p
      else
        let p1 =
              (if editingTextId r \<noteq> None \<and> the (editingTextId r) \<noteq> [] then
                 p\<lparr>elements :=
                     map (\<lambda>ae. if el_id (snd ae) = the (editingTextId r)
                                then (case snd ae of
                                        TextEl tx \<Rightarrow>
                                          TextEl (tx\<lparr>t_ref := fst ae, content := textInput r\<rparr>)
                                      | ShapeEl sh \<Rightarrow> ShapeEl (sh\<lparr>s_ref := fst ae\<rparr>))
                                else snd ae)
                       (enumerate (nextRef p) (elements p)),
                   editingTextId := None,
                   nextRef := nextRef p + length (elements p)\<rparr>
               else
                 saveToHistory r
                   (p\<lparr>elements := elements p @
                        [TextEl \<lparr>t_ref = nextRef p, t_id = now,
                                 t_x = ptx (textPosition r), t_y = pty (textPosition r),
                                 content = textInput r, fontSize = lineWidth r * 8,
                                 t_rotation = Some 0, t_flipX = Some False, t_flipY = Some False\<rparr>],
                      nextRef := nextRef p + 1\<rparr>))
        in p1\<lparr>textInput := [], isAddingText := False\<rparr>)"

text \<open>\<^verbatim>\<open>handleCanvasContextMenu(e)\<close>, lines 1086 to 1102.\<close>

definition handleCanvasContextMenu :: "state \<Rightarrow> state \<Rightarrow> (nat \<Rightarrow> string) \<Rightarrow> mouse_event \<Rightarrow> state" where
  "handleCanvasContextMenu r p newId e =
     (if canvasRef p = None then p
      else
        let pt = transformCoordinates r p (e_clientX e) (e_clientY e);
            x = ptx pt;
            y = pty pt
        in case find (\<lambda>el. (case el of TextEl tx \<Rightarrow> True | ShapeEl sh \<Rightarrow> False)
                             \<and> isPointInElement r x y el) (elements r) of
             Some (TextEl clickedElement) \<Rightarrow>
               p\<lparr>editingTextId := Some (t_id clickedElement),
                 textInput := content clickedElement,
                 textPosition := \<lparr>ptx = t_x clickedElement, pty = t_y clickedElement\<rparr>,
                 isAddingText := True\<rparr>
           | _ \<Rightarrow>
               if length (copiedElements r) > 0 then pasteElements r p newId (Some x) (Some y)
               else p)"

text \<open>\<^verbatim>\<open>handleWheel(e)\<close>, lines 1244 to 1261.\<close>

definition handleWheel :: "state \<Rightarrow> state \<Rightarrow> wheel_event \<Rightarrow> state" where
  "handleWheel r p e =
     (if w_ctrlKey e then
        let delta = (if w_deltaY e > 0 then - (1 / 10) else 1 / 10)
        in handleZoom r p delta (Some (w_clientX e)) (Some (w_clientY e))
      else
        let panSpeed = 1
        in p\<lparr>panOffset := \<lparr>ptx = ptx (panOffset p) - w_deltaX e * panSpeed,
                             pty = pty (panOffset p) - w_deltaY e * panSpeed\<rparr>\<rparr>)"

text \<open>The reset of the view, lines 266 and 267 and the toolbar button of lines 1448 to 1451.\<close>

definition resetView :: "state \<Rightarrow> state" where
  "resetView p = p\<lparr>zoom := 1, panOffset := \<lparr>ptx = 0, pty = 0\<rparr>\<rparr>"

text \<open>
  \<^verbatim>\<open>handleKeyDown(e)\<close>, lines 237 to 309. An exception thrown by \<^const>\<open>undo\<close> ends the
  handler.
\<close>

definition handleKeyDown :: "state \<Rightarrow> state \<Rightarrow> (nat \<Rightarrow> string) \<Rightarrow> key_event \<Rightarrow> error + state" where
  "handleKeyDown r p newId e =
     (let shortcut =
            (if k_ctrlKey e \<or> k_metaKey e then
               (if k_key e = ''c'' then Inr (copyElements r p)
                else if k_key e = ''v'' then Inr (pasteElements r p newId None None)
                else if k_key e = ''z'' then (if k_shiftKey e then Inr (redo r p) else undo r p)
                else if k_key e = ''a'' then Inr (selectAll r p)
                else if k_key e = ''d'' then Inr (duplicateElements r p newId)
                else if k_key e = ''0'' then Inr (resetView p)
                else if k_key e = ''='' \<or> k_key e = ''+'' then Inr (handleZoom r p (2 / 10) None None)
                else if k_key e = ''-'' then Inr (handleZoom r p (- (2 / 10)) None None)
                else Inr p)
             else Inr p)
      in case shortcut of
           Inl err \<Rightarrow> Inl err
         | Inr p1 \<Rightarrow>
             let p2 = (if k_key e = ''Delete'' \<or> k_key e = ''Backspace''
                       then deleteSelectedElements r p1 else p1);
                 p3 = (if k_key e = ''Escape''
                       then p2\<lparr>selectedElements := [], selectionBox := None\<rparr> else p2);
                 panSpeed = (if k_shiftKey e then 100 else 20);
                 prev = panOffset p3
             in Inr (if k_key e = ''ArrowUp'' then p3\<lparr>panOffset := prev\<lparr>pty := pty prev + panSpeed\<rparr>\<rparr>
                     else if k_key e = ''ArrowDown'' then p3\<lparr>panOffset := prev\<lparr>pty := pty prev - panSpeed\<rparr>\<rparr>
                     else if k_key e = ''ArrowLeft'' then p3\<lparr>panOffset := prev\<lparr>ptx := ptx prev + panSpeed\<rparr>\<rparr>
                     else if k_key e = ''ArrowRight'' then p3\<lparr>panOffset := prev\<lparr>ptx := ptx prev - panSpeed\<rparr>\<rparr>
                     else p3))"

subsection \<open>The editor as a state machine\<close>

text \<open>
  The events of the component: the canvas's mouse, context-menu and wheel handlers, the
  window's key listener, the toolbar's buttons and toggles, and the text input. The clock
  readings and random identifiers that a handler draws are carried by the event.

  The mouse, toolbar and text handlers are created anew in every render, so they run with
  \<open>r = p\<close>. The key listener is registered by an effect with the dependency list
  \<^verbatim>\<open>[selectedElements, copiedElements, elements]\<close> (line 313) and may belong to an earlier
  render: the event \<open>KeyDown\<close> carries the render that the listener closes over.
  \<open>ZoomCall\<close> is a call of \<^const>\<open>handleZoom\<close> with any delta and anchor.
\<close>

datatype event =
    MouseDown string mouse_event
  | MouseMove mouse_event
  | MouseUp mouse_event
  | ContextMenu "nat \<Rightarrow> string" mouse_event
  | Wheel wheel_event
  | KeyDown state "nat \<Rightarrow> string" key_event
  | ZoomCall real "real option" "real option"
  | ToolButton Tool
  | CopyButton
  | RotateButton
  | FlipHorizontalButton
  | FlipVerticalButton
  | UndoButton
  | RedoButton
  | ZoomOutButton
  | ZoomInButton
  | ResetViewButton
  | ClearButton
  | ShowGridToggle bool
  | GridSnapToggle bool
  | LineWidthSlider real
  | TextInputChange string
  | TextInputEnter string
  | TextInputEscape
  | TextInputBlur string

text \<open>
  One event: the next render, or \<^const>\<open>None\<close> when \<^const>\<open>draw\<close> leaves the model. An
  exception in a handler that has queued no update leaves the state as it is.
\<close>

fun step :: "state \<Rightarrow> event \<Rightarrow> state option" where
  "step s (MouseDown now e) = Some (startDrawing s s now e)"
| "step s (MouseMove e) = draw s s e"
| "step s (MouseUp e) = Some (finishDrawing s s e)"
| "step s (ContextMenu newId e) = Some (handleCanvasContextMenu s s newId e)"
| "step s (Wheel e) = Some (handleWheel s s e)"
| "step s (KeyDown r newId e) =
     Some (case handleKeyDown r s newId e of Inl err \<Rightarrow> s | Inr s' \<Rightarrow> s')"
| "step s (ZoomCall delta cx cy) = Some (handleZoom s s delta cx cy)"
| "step s (ToolButton t) = Some (handleToolChange s s t)"
| "step s CopyButton = Some (copyElements s s)"
| "step s RotateButton = Some (rotateSelectedElements s s)"
| "step s FlipHorizontalButton = Some (flipSelectedElementsHorizontal s s)"
| "step s FlipVerticalButton = Some (flipSelectedElementsVertical s s)"
| "step s UndoButton = Some (case undo s s of Inl err \<Rightarrow> s | Inr s' \<Rightarrow> s')"
| "step s RedoButton = Some (redo s s)"
| "step s ZoomOutButton = Some (handleZoom s s (- (2 / 10)) None None)"
| "step s ZoomInButton = Some (handleZoom s s (2 / 10) None None)"
| "step s ResetViewButton = Some (resetView s)"
| "step s ClearButton = Some (clearCanvas s s)"
| "step s (ShowGridToggle b) = Some (s\<lparr>showGrid := b\<rparr>)"
| "step s (GridSnapToggle b) = Some (s\<lparr>gridSnap := b\<rparr>)"
| "step s (LineWidthSlider w) = Some (s\<lparr>lineWidth := w\<rparr>)"
| "step s (TextInputChange v) = Some (s\<lparr>textInput := v\<rparr>)"
| "step s (TextInputEnter now) = Some (addTextToCanvas s s now)"
| "step s TextInputEscape = Some (s\<lparr>isAddingText := False, textInput := [], editingTextId := None\<rparr>)"
| "step s (TextInputBlur now) = Some (addTextToCanvas s s now)"

fun run :: "state \<Rightarrow> event list \<Rightarrow> state option" where
  "run s [] = Some s"
| "run s (ev # evs) = (case step s ev of None \<Rightarrow> None | Some s' \<Rightarrow> run s' evs)"

section \<open>The bounding box of the specification\<close>

text \<open>
  The specification (section 4.2) words the bounding box of an element on its own: the
  normalised rectangle of start and end for a line, rectangle or circle, the minimum and
  maximum over all points for a stroke, and the nominal box
  \<open>[x, x + 50] \<times> [y - fontSize, y]\<close> for a text (50 is the nominal width of
  \<^const>\<open>isPointInElement\<close>). These two definitions follow those words, to be compared with
  \<^const>\<open>inSelectionBox\<close>, which follows the code.
\<close>

definition spec_boundingBox :: "DrawingElement \<Rightarrow> box" where
  "spec_boundingBox el =
     (case el of
        TextEl tx \<Rightarrow>
          \<lparr>box_startX = t_x tx, box_startY = t_y tx - fontSize tx,
           box_endX = t_x tx + 50, box_endY = t_y tx\<rparr>
      | ShapeEl sh \<Rightarrow>
          (case (s_type sh, points sh) of
             (PenShape, Some (pt # ps)) \<Rightarrow>
               \<lparr>box_startX = fold min (map ptx ps) (ptx pt),
                box_startY = fold min (map pty ps) (pty pt),
                box_endX = fold max (map ptx ps) (ptx pt),
                box_endY = fold max (map pty ps) (pty pt)\<rparr>
           | _ \<Rightarrow>
               \<lparr>box_startX = min (startX sh) (endX sh), box_startY = min (startY sh) (endY sh),
                box_endX = max (startX sh) (endX sh), box_endY = max (startY sh) (endY sh)\<rparr>))"

text \<open>A bounding box lies fully inside the normalised selection rectangle.\<close>

definition spec_contained :: "box \<Rightarrow> box \<Rightarrow> bool" where
  "spec_contained sb bb =
     (min (box_startX sb) (box_endX sb) \<le> box_startX bb
      \<and> box_endX bb \<le> max (box_startX sb) (box_endX sb)
      \<and> min (box_startY sb) (box_endY sb) \<le> box_startY bb
      \<and> box_endY bb \<le> max (box_startY sb) (box_endY sb))"

section \<open>Concrete inputs\<close>

text \<open>An 800 by 600 canvas at the origin of the client area, and the editor's first render on it.\<close>

definition canvas0 :: dom_rect where
  "canvas0 = \<lparr>rect_left = 0, rect_top = 0, rect_width = 800, rect_height = 600\<rparr>"

definition s0 :: state where
  "s0 = initial canvas0"

text \<open>A press of the primary button at a client position, with no modifier key.\<close>

definition click :: "real \<Rightarrow> real \<Rightarrow> mouse_event" where
  "click x y = \<lparr>e_clientX = x, e_clientY = y, e_button = 0, e_ctrlKey = False, e_metaKey = False\<rparr>"

text \<open>A rectangle as \<^const>\<open>startDrawing\<close> creates it, with line width 2, at address \<open>a\<close>.\<close>

definition rectangle :: "nat \<Rightarrow> string \<Rightarrow> real \<Rightarrow> real \<Rightarrow> real \<Rightarrow> real \<Rightarrow> DrawingElement" where
  "rectangle a i x1 y1 x2 y2 =
     ShapeEl \<lparr>s_ref = a, s_id = i, s_type = RectangleShape,
              startX = x1, startY = y1, endX = x2, endY = y2,
              s_lineWidth = 2, points = None, s_rotation = Some 0, s_flipX = Some False,
              s_flipY = Some False\<rparr>"

definition rectA :: DrawingElement where
  "rectA = rectangle 1 ''1'' 10 10 50 40"



text \<open>Grid snap switched on in the first render.\<close>

definition snapOn :: state where
  "snapOn = s0\<lparr>gridSnap := True\<rparr>"

text \<open>Grid snap on, the eraser active, and \<^const>\<open>rectA\<close> alone on the canvas.\<close>

definition snapErase :: state where
  "snapErase = s0\<lparr>gridSnap := True, tool := Eraser, elements := [rectA],
     history := [\<lparr>hs_elements = [], hs_selectedElements = []\<rparr>,
                 \<lparr>hs_elements = [rectA], hs_selectedElements = []\<rparr>],
     historyIndex := 1, nextRef := 2\<rparr>"

text \<open>A text label anchored at (10, 10) with font size 16, and a small square.\<close>

definition label0 :: DrawingElement where
  "label0 = TextEl \<lparr>t_ref = 5, t_id = ''5'', t_x = 10, t_y = 10, content = ''hi'', fontSize = 16,
                     t_rotation = Some 0, t_flipX = Some False, t_flipY = Some False\<rparr>"

definition square0 :: DrawingElement where
  "square0 = rectangle 6 ''6'' 10 10 20 20"

text \<open>
  The select tool in the middle of a box selection from \<open>(x1, y1)\<close> to \<open>(x2, y2)\<close>,
  with the given elements on the canvas.
\<close>

definition boxSelecting :: "DrawingElement list \<Rightarrow> real \<Rightarrow> real \<Rightarrow> real \<Rightarrow> real \<Rightarrow> state" where
  "boxSelecting els x1 y1 x2 y2 =
     s0\<lparr>tool := Select, elements := els, isSelecting := True,
        selectionBox := Some \<lparr>box_startX = x1, box_startY = y1, box_endX = x2, box_endY = y2\<rparr>,
        history := [\<lparr>hs_elements = [], hs_selectedElements = []\<rparr>,
                    \<lparr>hs_elements = els, hs_selectedElements = []\<rparr>],
        historyIndex := 1, nextRef := 10\<rparr>"

text \<open>
  A pen stroke from (10, 10) to (50, 50): \<^const>\<open>startDrawing\<close> sets its start and end to
  the first point, and \<^const>\<open>draw\<close> appends the later points only.
\<close>

definition stroke0 :: DrawingElement where
  "stroke0 =
     ShapeEl \<lparr>s_ref = 7, s_id = ''7'', s_type = PenShape,
              startX = 10, startY = 10, endX = 10, endY = 10, s_lineWidth = 2,
              points = Some [\<lparr>ptx = 10, pty = 10\<rparr>, \<lparr>ptx = 50, pty = 50\<rparr>],
              s_rotation = Some 0, s_flipX = Some False, s_flipY = Some False\<rparr>"

text \<open>A rectangle far from the origin, and a mouse event of the primary button with Ctrl held.\<close>

definition farRect :: DrawingElement where
  "farRect = rectangle 8 ''8'' 100 100 120 120"

definition ctrlClick :: "real \<Rightarrow> real \<Rightarrow> mouse_event" where
  "ctrlClick x y = \<lparr>e_clientX = x, e_clientY = y, e_button = 0, e_ctrlKey = True, e_metaKey = False\<rparr>"

text \<open>
  A box selection from (0, 0) to (30, 30) started with Ctrl held while \<^const>\<open>farRect\<close> was
  selected, and the select tool with \<^const>\<open>square0\<close> on the canvas and selected.
\<close>

definition ctrlSelecting :: state where
  "ctrlSelecting = (boxSelecting [farRect] 0 0 30 30)\<lparr>selectedElements := [farRect]\<rparr>"

definition squareSelected :: state where
  "squareSelected = s0\<lparr>tool := Select, elements := [square0], selectedElements := [square0],
     history := [\<lparr>hs_elements = [], hs_selectedElements = []\<rparr>,
                 \<lparr>hs_elements = [square0], hs_selectedElements = []\<rparr>],
     historyIndex := 1, nextRef := 10\<rparr>"

text \<open>
  Grid snap on and a rectangle being drawn: pressed at client (12, 12) and dragged to
  (47, 33), which \<^const>\<open>transformCoordinates\<close> turned into (20, 20) and (40, 40).
\<close>

definition snapDraw :: state where
  "snapDraw = s0\<lparr>gridSnap := True, tool := Rectangle, isDrawing := True,
     elements := [rectangle 1 ''1'' 20 20 40 40], nextRef := 2\<rparr>"

text \<open>
  A session from the first render: the rectangle tool is chosen, a rectangle is dragged
  from (10, 10) to (50, 40), the eraser is chosen and pressed at (20, 20), inside the
  rectangle.
\<close>

definition eraseTrace :: "event list" where
  "eraseTrace =
     [ToolButton Rectangle, MouseDown ''1'' (click 10 10), MouseMove (click 50 40),
      MouseUp (click 50 40), ToolButton Eraser, MouseDown ''2'' (click 20 20),
      MouseUp (click 20 20)]"

text \<open>The render after the rectangle is drawn, and the render after it is erased.\<close>

definition drawnState :: state where
  "drawnState = s0\<lparr>tool := Rectangle, elements := [rectA],
     history := [\<lparr>hs_elements = [], hs_selectedElements = []\<rparr>,
                 \<lparr>hs_elements = [rectA], hs_selectedElements = []\<rparr>],
     historyIndex := 1, nextRef := 2\<rparr>"

definition erasedState :: state where
  "erasedState = s0\<lparr>tool := Eraser, elements := [],
     history := [\<lparr>hs_elements = [], hs_selectedElements = []\<rparr>,
                 \<lparr>hs_elements = [rectA], hs_selectedElements = []\<rparr>,
                 \<lparr>hs_elements = [rectA], hs_selectedElements = []\<rparr>],
     historyIndex := 2, nextRef := 2\<rparr>"

section \<open>Properties\<close>

lemma snapCoord_idem: "g \<noteq> 0 \<Longrightarrow> snapCoord g (snapCoord g v) = snapCoord g v"
  by (simp add: snapCoord_def)

text \<open>
  C9. Grid snapping is idempotent: snapping an already snapped point gives the same point,
  whether grid snap is enabled (each coordinate is rounded to a multiple of
  \<^const>\<open>gridSize\<close>) or disabled (the identity); and the quantisation
  \<open>round (v / g) * g\<close> is idempotent for every cell size \<open>g\<close> other than 0.
\<close>

theorem snapToGrid_idempotent:
  "snapToGrid r (ptx (snapToGrid r x y)) (pty (snapToGrid r x y)) = snapToGrid r x y
   \<and> (\<forall>g v. g \<noteq> 0 \<longrightarrow> snapCoord g (snapCoord g v) = snapCoord g v)"
  by (simp add: snapToGrid_def gridSize_def snapCoord_idem)

theorem snapToGrid_idempotent_witness:
  "snapToGrid (s0\<lparr>gridSnap := True\<rparr>) 27 (- 30) = \<lparr>ptx = 20, pty = - 20\<rparr>
   \<and> snapToGrid (s0\<lparr>gridSnap := True\<rparr>) 20 (- 20) = \<lparr>ptx = 20, pty = - 20\<rparr>
   \<and> (7::real) \<noteq> 0 \<and> snapCoord 7 10 = 7 \<and> snapCoord 7 (snapCoord 7 10) = snapCoord 7 10"
  using snapToGrid_idempotent [of "s0\<lparr>gridSnap := True\<rparr>" 27 "- 30"]
  by (simp add: snapToGrid_def snapCoord_def gridSize_def s0_def initial_def round_def)

text \<open>
  C2. A commit \<^const>\<open>saveToHistory\<close> called from render \<open>r\<close> makes the history the
  prefix of the old history up to and including the cursor, followed by one new snapshot
  of the elements and the selection of \<open>r\<close>; the cursor becomes the index of that
  snapshot, the last one (one more than the old cursor when that was inside the history),
  so the snapshots after the old cursor are gone. Nothing else of the state changes.
\<close>

theorem saveToHistory_commit:
  fixes r p :: state
  defines "snap \<equiv> \<lparr>hs_elements = elements r, hs_selectedElements = selectedElements r\<rparr>"
  defines "q \<equiv> saveToHistory r p"
  shows "history q = take (historyIndex r + 1) (history r) @ [snap]
    \<and> historyIndex q = length (history q) - 1
    \<and> history q ! historyIndex q = snap
    \<and> last (history q) = snap
    \<and> (historyIndex r < length (history r) \<longrightarrow> historyIndex q = historyIndex r + 1)
    \<and> q = p\<lparr>history := history q, historyIndex := historyIndex q\<rparr>"
  by (simp add: q_def snap_def saveToHistory_def Let_def nth_append min_def)

theorem saveToHistory_commit_witness:
  "historyIndex s0 < length (history s0)
   \<and> history (saveToHistory s0 s0)
       = [\<lparr>hs_elements = [], hs_selectedElements = []\<rparr>, \<lparr>hs_elements = [], hs_selectedElements = []\<rparr>]
   \<and> historyIndex (saveToHistory s0 s0) = 1"
  using saveToHistory_commit [of s0 s0]
  by (simp add: s0_def initial_def)

text \<open>
  C4. Zoom anchoring: for a zoom in [0.1, 10], any pan, any delta and any mouse position
  \<open>(mx, my)\<close>, after \<^const>\<open>handleZoom\<close> anchored there the new zoom and pan put the same
  world point under \<open>(mx, my)\<close> as the zoom and pan that the handler read. (With no canvas
  mounted the handler returns at once and changes nothing.) On a canvas at the origin of
  the client area, as the page mounts it, the pointer handlers' conversion
  \<^const>\<open>transformCoordinates\<close> of \<open>(mx, my)\<close> is unchanged as well.
\<close>

theorem handleZoom_anchor:
  assumes "1 / 10 \<le> zoom r" and "zoom r \<le> 10"
    and "canvasRef p = None \<longrightarrow> p = r"
    and "q = handleZoom r p delta (Some mx) (Some my)"
  shows "screenToWorld (zoom q) (panOffset q) \<lparr>ptx = mx, pty = my\<rparr>
           = screenToWorld (zoom r) (panOffset r) \<lparr>ptx = mx, pty = my\<rparr>
    \<and> (p = r \<and> (\<forall>rect. canvasRef r = Some rect \<longrightarrow> rect_left rect = 0 \<and> rect_top rect = 0)
         \<longrightarrow> transformCoordinates q q mx my = transformCoordinates r r mx my)"
proof (cases "canvasRef p")
  case None
  with assms show ?thesis by (simp add: handleZoom_def)
next
  case (Some rect)
  have nz: "max (1 / 10) (min 10 (zoom r + delta)) \<noteq> 0"
    by (simp add: max_def min_def)
  from Some assms(4) have q: "q = p\<lparr>zoom := max (1 / 10) (min 10 (zoom r + delta)),
      panOffset := \<lparr>ptx = mx - (mx - ptx (panOffset r)) / zoom r * max (1 / 10) (min 10 (zoom r + delta)),
                    pty = my - (my - pty (panOffset r)) / zoom r * max (1 / 10) (min 10 (zoom r + delta))\<rparr>\<rparr>"
    by (simp add: handleZoom_def screenToWorld_def Let_def)
  have world: "screenToWorld (zoom q) (panOffset q) \<lparr>ptx = mx, pty = my\<rparr>
           = screenToWorld (zoom r) (panOffset r) \<lparr>ptx = mx, pty = my\<rparr>"
    using nz by (simp add: q screenToWorld_def)
  have "transformCoordinates q q mx my = transformCoordinates r r mx my"
    if "p = r" and "\<forall>rect. canvasRef r = Some rect \<longrightarrow> rect_left rect = 0 \<and> rect_top rect = 0"
  proof -
    from that Some have origin: "rect_left rect = 0" "rect_top rect = 0" by simp_all
    from that(1) Some q have "canvasRef q = Some rect" "canvasRef r = Some rect" "gridSnap q = gridSnap r"
      by simp_all
    then show ?thesis
      using world origin by (simp add: transformCoordinates_def snapToGrid_def screenToWorld_def Let_def)
  qed
  with world show ?thesis by blast
qed

theorem handleZoom_anchor_witness:
  "1 / 10 \<le> zoom s0 \<and> zoom s0 \<le> 10 \<and> canvasRef s0 = Some canvas0
   \<and> rect_left canvas0 = 0 \<and> rect_top canvas0 = 0
   \<and> zoom (handleZoom s0 s0 (1 / 2) (Some 100) (Some 40)) = 3 / 2
   \<and> panOffset (handleZoom s0 s0 (1 / 2) (Some 100) (Some 40)) = \<lparr>ptx = - 50, pty = - 20\<rparr>
   \<and> screenToWorld (3 / 2) \<lparr>ptx = - 50, pty = - 20\<rparr> \<lparr>ptx = 100, pty = 40\<rparr>
       = screenToWorld 1 \<lparr>ptx = 0, pty = 0\<rparr> \<lparr>ptx = 100, pty = 40\<rparr>
   \<and> transformCoordinates (handleZoom s0 s0 (1 / 2) (Some 100) (Some 40))
         (handleZoom s0 s0 (1 / 2) (Some 100) (Some 40)) 100 40 = \<lparr>ptx = 100, pty = 40\<rparr>
   \<and> transformCoordinates s0 s0 100 40 = \<lparr>ptx = 100, pty = 40\<rparr>"
  using handleZoom_anchor [of s0 s0 "handleZoom s0 s0 (1 / 2) (Some 100) (Some 40)" "1 / 2" 100 40]
  by (simp add: handleZoom_def screenToWorld_def transformCoordinates_def snapToGrid_def
      s0_def initial_def canvas0_def Let_def)












text \<open>
  C7. With an empty selection, copy, duplicate, delete, rotate and the two flips return
  the pending state unchanged; with an empty clipboard, so does paste. The elements, the
  selection, the clipboard, the history and its cursor are therefore all as before.
\<close>

theorem empty_selection_noop:
  "(selectedElements r = [] \<longrightarrow>
      copyElements r p = p \<and> duplicateElements r p newId = p \<and> deleteSelectedElements r p = p
      \<and> rotateSelectedElements r p = p \<and> flipSelectedElementsHorizontal r p = p
      \<and> flipSelectedElementsVertical r p = p)
   \<and> (copiedElements r = [] \<longrightarrow> pasteElements r p newId x y = p)"
  by (simp add: copyElements_def duplicateElements_def deleteSelectedElements_def
      rotateSelectedElements_def flipSelectedElementsHorizontal_def
      flipSelectedElementsVertical_def transformSelected_def pasteElements_def)

theorem empty_selection_noop_witness:
  "selectedElements s0 = [] \<and> copiedElements s0 = []
   \<and> copyElements s0 s0 = s0 \<and> duplicateElements s0 s0 (\<lambda>i. ''7'') = s0
   \<and> deleteSelectedElements s0 s0 = s0 \<and> rotateSelectedElements s0 s0 = s0
   \<and> flipSelectedElementsHorizontal s0 s0 = s0 \<and> flipSelectedElementsVertical s0 s0 = s0
   \<and> pasteElements s0 s0 (\<lambda>i. ''7'') None None = s0"
  using empty_selection_noop [of s0 s0 "\<lambda>i. ''7''" None None]
  by (simp add: s0_def initial_def)

lemma snapOn_fields:
  "gridSnap snapOn" "canvasRef snapOn = Some canvas0" "zoom snapOn = 1"
  "panOffset snapOn = \<lparr>ptx = 0, pty = 0\<rparr>"
  by (simp_all add: snapOn_def s0_def initial_def)

lemma snapErase_fields:
  "gridSnap snapErase" "canvasRef snapErase = Some canvas0" "zoom snapErase = 1"
  "panOffset snapErase = \<lparr>ptx = 0, pty = 0\<rparr>" "tool snapErase = Eraser" "ctx snapErase"
  "elements snapErase = [rectA]" "selectedElements snapErase = []"
  by (simp_all add: snapErase_def s0_def initial_def)

text \<open>
  C3 as stated fails: with grid snap on, \<^const>\<open>transformCoordinates\<close>, the conversion that
  every pointer handler calls first, returns the quantised point. The client position
  (7, 13) on an unpanned, unzoomed canvas at the origin is the world point (7, 13), and the
  conversion returns (0, 20). Hit-testing sees the quantised point: an eraser press at
  (44, 49), which is not on \<^const>\<open>rectA\<close>, erases it, because (40, 40) is.
\<close>

theorem transformCoordinates_quantizes_counterexample:
  "gridSnap snapOn
   \<and> screenToWorld (zoom snapOn) (panOffset snapOn) \<lparr>ptx = 7, pty = 13\<rparr> = \<lparr>ptx = 7, pty = 13\<rparr>
   \<and> transformCoordinates snapOn snapOn 7 13 = \<lparr>ptx = 0, pty = 20\<rparr>
   \<and> transformCoordinates snapOn snapOn 7 13 \<noteq> \<lparr>ptx = 7, pty = 13\<rparr>
   \<and> \<not> isPointInElement snapErase 44 49 rectA
   \<and> elements (startDrawing snapErase snapErase ''9'' (click 44 49)) = []"
  by (simp add: snapOn_fields snapErase_fields screenToWorld_def transformCoordinates_def
      canvas0_def snapToGrid_def snapCoord_def gridSize_def round_def
      startDrawing_def eraseElements_def saveToHistory_def Let_def click_def
      isPointInElement_def rectA_def rectangle_def)

text \<open>
  C3 as amended. On a mounted canvas, with \<open>w\<close> the world point
  \<open>(client - canvas origin - pan) / zoom\<close>: when grid snap is on,
  \<^const>\<open>transformCoordinates\<close> returns \<open>w\<close> with each coordinate rounded to a multiple
  of 20, and when it is off it returns \<open>w\<close> itself. With grid snap on, snapping is
  also applied when a draw gesture is committed (the last element), at each step of a move
  drag (to the translated element), at each step of a rectangle or line resize drag (to
  the new start and end), and when an element is placed by paste.
\<close>

theorem transformCoordinates_snaps:
  fixes r p :: state and rect :: dom_rect and cx cy :: real
  assumes "canvasRef p = Some rect"
  defines "w \<equiv> \<lparr>ptx = (cx - rect_left rect - ptx (panOffset r)) / zoom r,
                  pty = (cy - rect_top rect - pty (panOffset r)) / zoom r\<rparr>"
  shows "(gridSnap r \<longrightarrow>
            transformCoordinates r p cx cy =
              \<lparr>ptx = of_int (round (ptx w / 20)) * 20, pty = of_int (round (pty w / 20)) * 20\<rparr>)
    \<and> (\<not> gridSnap r \<longrightarrow> transformCoordinates r p cx cy = w)
    \<and> (gridSnap r \<and> isDrawing r \<and> \<not> isPanning r \<and> elements r \<noteq> [] \<longrightarrow>
          elements (finishDrawing r r e) =
            butlast (elements r) @ [snapElementToGrid r (nextRef r) (last (elements r))])
    \<and> (gridSnap r \<longrightarrow>
          movedBy r a dx dy el = snapElementToGrid r a (movedBy (r\<lparr>gridSnap := False\<rparr>) a dx dy el))
    \<and> (gridSnap r \<and> s_type sh \<noteq> CircleShape \<longrightarrow>
          resizeShape r a h x y sh =
            (let u = resizeShape (r\<lparr>gridSnap := False\<rparr>) a h x y sh
             in u\<lparr>startX := snapCoord gridSize (startX u), startY := snapCoord gridSize (startY u),
                   endX := snapCoord gridSize (endX u), endY := snapCoord gridSize (endY u)\<rparr>))
    \<and> (gridSnap r \<longrightarrow>
          pasteOne r newId a px py ie =
            snapElementToGrid r (a + fst ie) (pasteOne (r\<lparr>gridSnap := False\<rparr>) newId a px py ie))"
proof (intro conjI impI)
  assume "gridSnap r"
  with assms(1) show "transformCoordinates r p cx cy =
      \<lparr>ptx = of_int (round (ptx w / 20)) * 20, pty = of_int (round (pty w / 20)) * 20\<rparr>"
    by (simp add: transformCoordinates_def snapToGrid_def snapCoord_def gridSize_def w_def)
next
  assume "\<not> gridSnap r"
  with assms(1) show "transformCoordinates r p cx cy = w"
    by (simp add: transformCoordinates_def snapToGrid_def w_def)
next
  assume "gridSnap r \<and> isDrawing r \<and> \<not> isPanning r \<and> elements r \<noteq> []"
  then show "elements (finishDrawing r r e) =
            butlast (elements r) @ [snapElementToGrid r (nextRef r) (last (elements r))]"
    by (simp add: finishDrawing_def saveToHistory_def Let_def)
next
  assume "gridSnap r"
  then show "movedBy r a dx dy el = snapElementToGrid r a (movedBy (r\<lparr>gridSnap := False\<rparr>) a dx dy el)"
    by (simp add: movedBy_def Let_def)
next
  assume "gridSnap r \<and> s_type sh \<noteq> CircleShape"
  then show "resizeShape r a h x y sh =
            (let u = resizeShape (r\<lparr>gridSnap := False\<rparr>) a h x y sh
             in u\<lparr>startX := snapCoord gridSize (startX u), startY := snapCoord gridSize (startY u),
                   endX := snapCoord gridSize (endX u), endY := snapCoord gridSize (endY u)\<rparr>)"
    by (simp add: resizeShape_def Let_def snapToGrid_def)
next
  assume "gridSnap r"
  then show "pasteOne r newId a px py ie =
            snapElementToGrid r (a + fst ie) (pasteOne (r\<lparr>gridSnap := False\<rparr>) newId a px py ie)"
    by (simp add: pasteOne_def Let_def)
qed


lemma snapDraw_fields:
  "gridSnap snapDraw" "canvasRef snapDraw = Some canvas0" "zoom snapDraw = 1"
  "panOffset snapDraw = \<lparr>ptx = 0, pty = 0\<rparr>" "isDrawing snapDraw" "\<not> isPanning snapDraw"
  "elements snapDraw = [rectangle 1 ''1'' 20 20 40 40]" "tool snapDraw = Rectangle"
  "nextRef snapDraw = 2"
  by (simp_all add: snapDraw_def s0_def initial_def)

lemma s0_fields:
  "\<not> gridSnap s0" "canvasRef s0 = Some canvas0" "zoom s0 = 1"
  "panOffset s0 = \<lparr>ptx = 0, pty = 0\<rparr>" "elements s0 = []" "selectedElements s0 = []"
  "history s0 = [\<lparr>hs_elements = [], hs_selectedElements = []\<rparr>]" "historyIndex s0 = 0"
  "ctx s0" "tool s0 = Pen" "\<not> isDrawing s0" "\<not> isPanning s0" "\<not> isSelecting s0"
  "selectionBox s0 = None" "lineWidth s0 = 2" "copiedElements s0 = []"
  by (simp_all add: s0_def initial_def)

theorem transformCoordinates_snaps_witness:
  "canvasRef snapDraw = Some canvas0 \<and> gridSnap snapDraw \<and> isDrawing snapDraw
   \<and> \<not> isPanning snapDraw \<and> elements snapDraw \<noteq> []
   \<and> transformCoordinates snapDraw snapDraw 47 33 = \<lparr>ptx = 40, pty = 40\<rparr>
   \<and> elements (finishDrawing snapDraw snapDraw (click 47 33)) = [rectangle 2 ''1'' 20 20 40 40]
   \<and> movedBy snapDraw 9 3 4 rectA = rectangle 9 ''1'' 20 20 60 40
   \<and> canvasRef s0 = Some canvas0 \<and> \<not> gridSnap s0
   \<and> transformCoordinates s0 s0 47 33 = \<lparr>ptx = 47, pty = 33\<rparr>"
  using transformCoordinates_snaps [of snapDraw canvas0 snapDraw 47 33 "click 47 33" 9 3 4 rectA]
    transformCoordinates_snaps [of s0 canvas0 s0 47 33]
  by (simp add: snapDraw_fields s0_fields canvas0_def snapElementToGrid_def snapToGrid_def
      snapCoord_def gridSize_def round_def rectangle_def rectA_def movedBy_def Let_def)

lemma boxSelecting_fields:
  "tool (boxSelecting els x1 y1 x2 y2) = Select" "isSelecting (boxSelecting els x1 y1 x2 y2)"
  "selectionBox (boxSelecting els x1 y1 x2 y2)
     = Some \<lparr>box_startX = x1, box_startY = y1, box_endX = x2, box_endY = y2\<rparr>"
  "\<not> isPanning (boxSelecting els x1 y1 x2 y2)" "\<not> isDrawing (boxSelecting els x1 y1 x2 y2)"
  "elements (boxSelecting els x1 y1 x2 y2) = els"
  "selectedElements (boxSelecting els x1 y1 x2 y2) = []"
  by (simp_all add: boxSelecting_def s0_def initial_def)

text \<open>
  C6 as stated fails. A text element is selected by its anchor: the nominal box
  [10, 60] x [-6, 10] of \<^const>\<open>label0\<close> is not inside the selection rectangle
  [0, 30] x [0, 30], and the box selection selects it. A stroke is tested by its start and
  end, which are its first point: \<^const>\<open>stroke0\<close> reaches (50, 50) and is selected by the
  same rectangle. With the multi-select modifier held an element that was selected before
  stays selected, wherever it is: \<^const>\<open>farRect\<close> lies outside the rectangle.
\<close>

theorem box_select_counterexample:
  "selectedElements (finishDrawing (boxSelecting [label0] 0 0 30 30)
                       (boxSelecting [label0] 0 0 30 30) (click 30 30)) = [label0]
   \<and> spec_boundingBox label0 = \<lparr>box_startX = 10, box_startY = - 6, box_endX = 60, box_endY = 10\<rparr>
   \<and> \<not> spec_contained \<lparr>box_startX = 0, box_startY = 0, box_endX = 30, box_endY = 30\<rparr>
         (spec_boundingBox label0)
   \<and> selectedElements (finishDrawing (boxSelecting [stroke0] 0 0 30 30)
                       (boxSelecting [stroke0] 0 0 30 30) (click 30 30)) = [stroke0]
   \<and> spec_boundingBox stroke0 = \<lparr>box_startX = 10, box_startY = 10, box_endX = 50, box_endY = 50\<rparr>
   \<and> \<not> spec_contained \<lparr>box_startX = 0, box_startY = 0, box_endX = 30, box_endY = 30\<rparr>
         (spec_boundingBox stroke0)
   \<and> selectedElements (finishDrawing ctrlSelecting ctrlSelecting (ctrlClick 30 30)) = [farRect]
   \<and> \<not> spec_contained \<lparr>box_startX = 0, box_startY = 0, box_endX = 30, box_endY = 30\<rparr>
         (spec_boundingBox farRect)"
  by (simp add: finishDrawing_def boxSelecting_fields ctrlSelecting_def inSelectionBox_def Let_def
      click_def ctrlClick_def label0_def stroke0_def farRect_def rectangle_def
      spec_boundingBox_def spec_contained_def)

text \<open>
  C6 as amended. When a box selection with the select tool ends, take an element that is
  not a stroke, and say that it lies inside when, for a line, rectangle or circle, the
  rectangle spanned by its start and end points, and for a text element its anchor point,
  lies within the normalised selection rectangle, bounds included. Without the
  multi-select modifier the element is in the new selection exactly when it is on the
  canvas and lies inside. With the modifier it is in the new selection exactly when it was
  selected before or is on the canvas and lies inside. The witness is the example of the
  claim: the square from (10, 10) to (20, 20) is selected by [0, 30] x [0, 30] and not by
  [15, 30] x [15, 30].
\<close>

theorem box_select_containment:
  fixes r :: state and sb :: box
  assumes "tool r = Select" and "isSelecting r" and "selectionBox r = Some sb" and "\<not> isPanning r"
  defines "minX \<equiv> min (box_startX sb) (box_endX sb)"
    and "maxX \<equiv> max (box_startX sb) (box_endX sb)"
    and "minY \<equiv> min (box_startY sb) (box_endY sb)"
    and "maxY \<equiv> max (box_startY sb) (box_endY sb)"
  defines "inside \<equiv> (\<lambda>el. case el of
      ShapeEl sh \<Rightarrow> minX \<le> min (startX sh) (endX sh) \<and> max (startX sh) (endX sh) \<le> maxX
                   \<and> minY \<le> min (startY sh) (endY sh) \<and> max (startY sh) (endY sh) \<le> maxY
    | TextEl tx \<Rightarrow> minX \<le> t_x tx \<and> t_x tx \<le> maxX \<and> minY \<le> t_y tx \<and> t_y tx \<le> maxY)"
  defines "stroke \<equiv> (\<lambda>el. case el of ShapeEl sh \<Rightarrow> s_type sh = PenShape | TextEl tx \<Rightarrow> False)"
  shows "(\<not> e_ctrlKey e \<and> \<not> e_metaKey e \<longrightarrow>
            (\<forall>el. \<not> stroke el \<longrightarrow>
               (el \<in> set (selectedElements (finishDrawing r r e))
                  \<longleftrightarrow> el \<in> set (elements r) \<and> inside el)))
    \<and> (e_ctrlKey e \<or> e_metaKey e \<longrightarrow>
            (\<forall>el. \<not> stroke el \<longrightarrow>
               (el \<in> set (selectedElements (finishDrawing r r e))
                  \<longleftrightarrow> el \<in> set (selectedElements r) \<or> el \<in> set (elements r) \<and> inside el)))"
proof -
  have "inSelectionBox sb = inside"
    by (rule ext) (simp add: inSelectionBox_def inside_def minX_def maxX_def minY_def maxY_def
        Let_def split: DrawingElement.splits)
  with assms(1-4) show ?thesis
    by (auto simp add: finishDrawing_def saveToHistory_def Let_def)
qed

lemma ctrlSelecting_fields:
  "tool ctrlSelecting = Select" "isSelecting ctrlSelecting"
  "selectionBox ctrlSelecting
     = Some \<lparr>box_startX = 0, box_startY = 0, box_endX = 30, box_endY = 30\<rparr>"
  "\<not> isPanning ctrlSelecting" "\<not> isDrawing ctrlSelecting"
  "elements ctrlSelecting = [farRect]" "selectedElements ctrlSelecting = [farRect]"
  by (simp_all add: ctrlSelecting_def boxSelecting_fields)

theorem box_select_containment_witness:
  "tool (boxSelecting [square0] 0 0 30 30) = Select \<and> isSelecting (boxSelecting [square0] 0 0 30 30)
   \<and> \<not> isPanning (boxSelecting [square0] 0 0 30 30)
   \<and> \<not> e_ctrlKey (click 30 30) \<and> \<not> e_metaKey (click 30 30)
   \<and> square0 \<in> set (selectedElements (finishDrawing (boxSelecting [square0] 0 0 30 30)
        (boxSelecting [square0] 0 0 30 30) (click 30 30)))
   \<and> square0 \<notin> set (selectedElements (finishDrawing (boxSelecting [square0] 15 15 30 30)
        (boxSelecting [square0] 15 15 30 30) (click 30 30)))
   \<and> tool ctrlSelecting = Select \<and> isSelecting ctrlSelecting \<and> \<not> isPanning ctrlSelecting
   \<and> e_ctrlKey (ctrlClick 30 30)
   \<and> farRect \<in> set (selectedElements (finishDrawing ctrlSelecting ctrlSelecting (ctrlClick 30 30)))"
  using box_select_containment [of "boxSelecting [square0] 0 0 30 30"
      "\<lparr>box_startX = 0, box_startY = 0, box_endX = 30, box_endY = 30\<rparr>" "click 30 30"]
    box_select_containment [of "boxSelecting [square0] 15 15 30 30"
      "\<lparr>box_startX = 15, box_startY = 15, box_endX = 30, box_endY = 30\<rparr>" "click 30 30"]
    box_select_containment [of ctrlSelecting
      "\<lparr>box_startX = 0, box_startY = 0, box_endX = 30, box_endY = 30\<rparr>" "ctrlClick 30 30"]
  by (simp add: boxSelecting_fields ctrlSelecting_fields click_def ctrlClick_def square0_def
      farRect_def rectangle_def)

text \<open>
  Object identity at work: after a rotation the entry of the selection and the element on
  the canvas are two objects with the same fields, so a box selection with the modifier
  appends the element to the selection that holds its twin.
\<close>

lemma squareSelected_fields:
  "tool squareSelected = Select" "ctx squareSelected" "canvasRef squareSelected = Some canvas0"
  "elements squareSelected = [square0]" "selectedElements squareSelected = [square0]"
  "zoom squareSelected = 1" "panOffset squareSelected = \<lparr>ptx = 0, pty = 0\<rparr>"
  "\<not> gridSnap squareSelected" "nextRef squareSelected = 10" "\<not> isPanning squareSelected"
  "\<not> isSelecting squareSelected" "\<not> isDrawing squareSelected" "selectionBox squareSelected = None"
  "resizeHandle squareSelected = None" "movingElement squareSelected = None"
  by (simp_all add: squareSelected_def s0_def initial_def)

lemma rotate_then_box_select:
  "map_option (\<lambda>s. map el_ref (selectedElements s))
     (run squareSelected
        [RotateButton, MouseDown ''9'' (ctrlClick 200 200), MouseMove (ctrlClick 0 0),
         MouseUp (ctrlClick 0 0)]) = Some [11, 10]"
  by (simp add: rotateSelectedElements_def transformSelected_def isSelected_def rotated_def
      saveToHistory_def startDrawing_def selectedHandle_def getResizeHandle_def firstHandle_def
      isPointInElement_def draw_def finishDrawing_def inSelectionBox_def
      transformCoordinates_def snapToGrid_def Let_def ctrlClick_def canvas0_def
      squareSelected_fields square0_def rectangle_def enumerate_eq_zip)

text \<open>No handler but \<^const>\<open>handleZoom\<close> and \<^const>\<open>resetView\<close> writes the zoom.\<close>

lemma zoom_saveToHistory: "zoom (saveToHistory r p) = zoom p"
  by (simp add: saveToHistory_def Let_def)

lemma zoom_handleZoom:
  assumes "1 / 10 \<le> zoom p \<and> zoom p \<le> 10"
  shows "1 / 10 \<le> zoom (handleZoom r p delta cx cy) \<and> zoom (handleZoom r p delta cx cy) \<le> 10"
  using assms by (cases "canvasRef p") (simp_all add: handleZoom_def Let_def)

lemma zoom_eraseElements: "zoom (eraseElements r p x y) = zoom p"
  by (simp add: eraseElements_def zoom_saveToHistory Let_def split: list.splits)

lemma zoom_startDrawing: "zoom (startDrawing r p now e) = zoom p"
  by (simp add: startDrawing_def zoom_eraseElements Let_def split: option.splits Tool.splits)

lemma zoom_draw: "draw r p e = Some q \<Longrightarrow> zoom q = zoom p"
  by (auto simp add: draw_def Let_def
      split: if_splits option.splits DrawingElement.splits prod.splits)

lemma zoom_finishDrawing: "zoom (finishDrawing r p e) = zoom p"
  by (simp add: finishDrawing_def zoom_saveToHistory Let_def)

lemma zoom_pasteElements: "zoom (pasteElements r p newId x y) = zoom p"
  by (simp add: pasteElements_def zoom_saveToHistory Let_def)

lemma zoom_handleCanvasContextMenu: "zoom (handleCanvasContextMenu r p newId e) = zoom p"
  by (simp add: handleCanvasContextMenu_def zoom_pasteElements Let_def
      split: option.splits DrawingElement.splits)

lemma zoom_handleWheel:
  assumes "1 / 10 \<le> zoom p \<and> zoom p \<le> 10"
  shows "1 / 10 \<le> zoom (handleWheel r p e) \<and> zoom (handleWheel r p e) \<le> 10"
  using zoom_handleZoom [OF assms] assms by (simp add: handleWheel_def Let_def)

lemma zoom_selection_commands:
  "zoom (copyElements r p) = zoom p"
  "zoom (duplicateElements r p newId) = zoom p"
  "zoom (deleteSelectedElements r p) = zoom p"
  "zoom (selectAll r p) = zoom p"
  "zoom (transformSelected f r p) = zoom p"
  "zoom (clearCanvas r p) = zoom p"
  "zoom (handleToolChange r p t) = zoom p"
  "zoom (redo r p) = zoom p"
  "zoom (addTextToCanvas r p now) = zoom p"
  by (simp_all add: copyElements_def duplicateElements_def deleteSelectedElements_def
      selectAll_def transformSelected_def clearCanvas_def handleToolChange_def redo_def
      addTextToCanvas_def zoom_saveToHistory Let_def)

lemma zoom_undo: "undo r p = Inr q \<Longrightarrow> zoom q = zoom p"
  by (auto simp add: undo_def Let_def split: if_splits)

lemma zoom_handleKeyDown:
  assumes "1 / 10 \<le> zoom p \<and> zoom p \<le> 10" and "handleKeyDown r p newId e = Inr q"
  shows "1 / 10 \<le> zoom q \<and> zoom q \<le> 10"
proof -
  obtain p1 where sc: "(if k_ctrlKey e \<or> k_metaKey e then
               (if k_key e = ''c'' then Inr (copyElements r p)
                else if k_key e = ''v'' then Inr (pasteElements r p newId None None)
                else if k_key e = ''z'' then (if k_shiftKey e then Inr (redo r p) else undo r p)
                else if k_key e = ''a'' then Inr (selectAll r p)
                else if k_key e = ''d'' then Inr (duplicateElements r p newId)
                else if k_key e = ''0'' then Inr (resetView p)
                else if k_key e = ''='' \<or> k_key e = ''+'' then Inr (handleZoom r p (2 / 10) None None)
                else if k_key e = ''-'' then Inr (handleZoom r p (- (2 / 10)) None None)
                else Inr p)
             else Inr p) = Inr p1"
    using assms(2) by (auto simp add: handleKeyDown_def Let_def split: sum.splits)
  have p1: "1 / 10 \<le> zoom p1 \<and> zoom p1 \<le> 10"
    using sc assms(1) zoom_handleZoom [OF assms(1), of r]
    by (auto simp add: zoom_selection_commands zoom_pasteElements resetView_def
        dest: zoom_undo split: if_splits)
  have "zoom q = zoom p1"
    using assms(2) sc
    by (auto simp add: handleKeyDown_def Let_def zoom_selection_commands split: if_splits)
  with p1 show ?thesis by simp
qed

lemma step_zoom:
  assumes "1 / 10 \<le> zoom s \<and> zoom s \<le> 10" and "step s ev = Some q"
  shows "1 / 10 \<le> zoom q \<and> zoom q \<le> 10"
proof (cases ev)
  case (KeyDown r newId e)
  show ?thesis
  proof (cases "handleKeyDown r s newId e")
    case (Inl err)
    with KeyDown assms show ?thesis by simp
  next
    case (Inr s')
    with KeyDown assms zoom_handleKeyDown [OF assms(1) Inr] show ?thesis by simp
  qed
next
  case UndoButton
  with assms show ?thesis by (cases "undo s s") (auto dest: zoom_undo)
qed (use assms zoom_handleZoom [OF assms(1), of s] zoom_handleWheel [OF assms(1), of s] in
     \<open>auto simp add: zoom_startDrawing zoom_finishDrawing zoom_handleCanvasContextMenu
        zoom_selection_commands rotateSelectedElements_def flipSelectedElementsHorizontal_def
        flipSelectedElementsVertical_def resetView_def dest: zoom_draw\<close>)

lemma run_zoom:
  "1 / 10 \<le> zoom s \<and> zoom s \<le> 10 \<Longrightarrow> run s evs = Some q \<Longrightarrow> 1 / 10 \<le> zoom q \<and> zoom q \<le> 10"
proof (induction evs arbitrary: s)
  case Nil
  then show ?case by simp
next
  case (Cons ev evs)
  from Cons.prems(2) obtain s' where s': "step s ev = Some s'" and rest: "run s' evs = Some q"
    by (auto split: option.splits)
  from step_zoom [OF Cons.prems(1) s'] rest show ?case by (rule Cons.IH)
qed


lemma run_total:
  "\<forall>ev\<in>set evs. \<forall>e. ev \<noteq> MouseMove e \<Longrightarrow> \<exists>q. run s evs = Some q"
proof (induction evs arbitrary: s)
  case Nil
  then show ?case by simp
next
  case (Cons ev evs)
  from Cons.prems have "\<forall>e. ev \<noteq> MouseMove e" by simp
  then obtain s' where s': "step s ev = Some s'" by (cases ev) simp_all
  from Cons.prems have "\<forall>ev\<in>set evs. \<forall>e. ev \<noteq> MouseMove e" by simp
  then have "\<exists>q. run s' evs = Some q" by (rule Cons.IH)
  with s' show ?case by simp
qed

text \<open>
  C8. From the first render (zoom 1), after any sequence of events of the editor (zoom
  buttons, calls of \<^const>\<open>handleZoom\<close> with any delta and anchor, wheel events, key
  presses handled by a listener of any render, view resets, and every other modelled
  handler) the zoom lies in [0.1, 10]. Every sequence without a mouse move has a resulting
  state; a mouse move has none only when it drags a text element.
\<close>

theorem zoom_invariant:
  "(run (initial rc) evs = Some s \<longrightarrow> 1 / 10 \<le> zoom s \<and> zoom s \<le> 10)
   \<and> ((\<forall>ev\<in>set evs. \<forall>e. ev \<noteq> MouseMove e) \<longrightarrow> (\<exists>q. run (initial rc) evs = Some q))"
proof -
  have start: "1 / 10 \<le> zoom (initial rc) \<and> zoom (initial rc) \<le> 10"
    by (simp add: initial_def)
  have "run (initial rc) evs = Some s \<longrightarrow> 1 / 10 \<le> zoom s \<and> zoom s \<le> 10"
    using run_zoom [OF start] by blast
  moreover have "(\<forall>ev\<in>set evs. \<forall>e. ev \<noteq> MouseMove e) \<longrightarrow> (\<exists>q. run (initial rc) evs = Some q)"
    using run_total by blast
  ultimately show ?thesis by (rule conjI)
qed

theorem zoom_invariant_witness:
  "run s0 [ZoomCall 100 None None] = Some (s0\<lparr>zoom := 10, panOffset := \<lparr>ptx = - 3600, pty = - 2700\<rparr>\<rparr>)
   \<and> run s0 [ZoomCall 100 None None, ZoomCall (- 100) (Some 0) (Some 0), ZoomInButton, ResetViewButton,
              ZoomOutButton]
       = Some (s0\<lparr>zoom := 8 / 10, panOffset := \<lparr>ptx = 80, pty = 60\<rparr>\<rparr>)"
  using zoom_invariant [of canvas0 "[ZoomCall 100 None None]"
      "s0\<lparr>zoom := 10, panOffset := \<lparr>ptx = - 3600, pty = - 2700\<rparr>\<rparr>"]
    zoom_invariant [of canvas0 "[ZoomCall 100 None None, ZoomCall (- 100) (Some 0) (Some 0),
      ZoomInButton, ResetViewButton, ZoomOutButton]"
      "s0\<lparr>zoom := 8 / 10, panOffset := \<lparr>ptx = 80, pty = 60\<rparr>\<rparr>"]
  by (simp add: handleZoom_def screenToWorld_def resetView_def Let_def s0_fields canvas0_def)

text \<open>
  Undo at the oldest snapshot and redo at the newest change nothing, and undo followed by
  redo gives the state back whenever the snapshot at the cursor is the live elements and
  selection.
\<close>

lemma undo_oldest: "historyIndex r = 0 \<Longrightarrow> undo r p = Inr p"
  by (simp add: undo_def)

lemma redo_newest: "historyIndex r = length (history r) - 1 \<Longrightarrow> redo r p = p"
  by (simp add: redo_def)

lemma undo_redo_inverse:
  assumes "0 < historyIndex s" and "historyIndex s < length (history s)"
    and "history s ! historyIndex s
           = \<lparr>hs_elements = elements s, hs_selectedElements = selectedElements s\<rparr>"
  shows "\<exists>u. undo s s = Inr u \<and> redo u u = s"
proof -
  from assms(1,2) have "historyIndex s - 1 < length (history s)"
    and "historyIndex s - 1 < length (history s) - 1"
    and "historyIndex s - 1 + 1 = historyIndex s"
    by simp_all
  with assms show ?thesis by (simp add: undo_def redo_def Let_def)
qed

lemma drawnState_fields:
  "\<not> gridSnap drawnState" "canvasRef drawnState = Some canvas0" "zoom drawnState = 1"
  "panOffset drawnState = \<lparr>ptx = 0, pty = 0\<rparr>" "elements drawnState = [rectA]"
  "selectedElements drawnState = []"
  "history drawnState = [\<lparr>hs_elements = [], hs_selectedElements = []\<rparr>,
                 \<lparr>hs_elements = [rectA], hs_selectedElements = []\<rparr>]"
  "historyIndex drawnState = 1"
  "ctx drawnState" "tool drawnState = Rectangle" "\<not> isDrawing drawnState"
  "\<not> isPanning drawnState" "\<not> isSelecting drawnState" "\<not> isAddingText drawnState"
  by (simp_all add: drawnState_def s0_def initial_def)

lemma draw_rectA: "run s0 (take 4 eraseTrace) = Some drawnState"
  by (simp add: eraseTrace_def handleToolChange_def startDrawing_def draw_def finishDrawing_def
      saveToHistory_def transformCoordinates_def snapToGrid_def Let_def click_def
      s0_def initial_def canvas0_def drawnState_def rectA_def rectangle_def)

lemma erase_rectA: "run drawnState (drop 4 eraseTrace) = Some erasedState"
  by (simp add: eraseTrace_def handleToolChange_def startDrawing_def finishDrawing_def
      eraseElements_def isPointInElement_def
      saveToHistory_def transformCoordinates_def snapToGrid_def Let_def click_def
      s0_def initial_def canvas0_def drawnState_def erasedState_def rectA_def rectangle_def)

lemma run_append:
  "run s (xs @ ys) = (case run s xs of None \<Rightarrow> None | Some s' \<Rightarrow> run s' ys)"
  by (induction xs arbitrary: s) (simp_all split: option.splits)

text \<open>
  C1. The handlers that commit after queuing an update (erase, clear, paste, duplicate,
  delete, rotate, flip, adding a text) snapshot the elements of the render, which do not
  contain the update yet. In the session \<^const>\<open>eraseTrace\<close> the rectangle is drawn and then
  erased: the canvas is empty, the cursor is on the third snapshot, and that snapshot
  still holds the rectangle. Undo followed by redo then brings the rectangle back: the
  state before the undo is not restored.
\<close>

theorem undo_redo_after_erase:
  "run s0 eraseTrace = Some erasedState
   \<and> elements erasedState = [] \<and> selectedElements erasedState = []
   \<and> historyIndex erasedState = 2
   \<and> hs_elements (history erasedState ! historyIndex erasedState) = [rectA]
   \<and> run erasedState [UndoButton, RedoButton] = Some (erasedState\<lparr>elements := [rectA]\<rparr>)"
proof -
  have "run s0 (take 4 eraseTrace @ drop 4 eraseTrace) = Some erasedState"
    unfolding run_append by (simp add: draw_rectA erase_rectA)
  then have "run s0 eraseTrace = Some erasedState" by simp
  moreover have "run erasedState [UndoButton, RedoButton] = Some (erasedState\<lparr>elements := [rectA]\<rparr>)"
    by (simp add: undo_def redo_def Let_def erasedState_def s0_def initial_def)
  ultimately show ?thesis
    by (simp add: erasedState_def s0_def initial_def)
qed

end
